theory Spec2Isabelle
  imports Complex_Main
begin

section \<open>The nozzle wipe engine of Octolapse: gcode_wiper.cpp\<close>

text \<open>
  A shallow embedding of the class \<open>gcode_wiper\<close>. Conventions of the model:
  \<^item> a C++ \<open>double\<close> that is a finite number is a \<open>real\<close>, and the model computes
    with exact numbers: the rounding of the doubles is not modelled, except in
    \<open>initialize\<close>, which is given with a function \<open>fl\<close> that rounds the result of each
    of its operations (\<open>initialize_rounded\<close>; \<open>round_double\<close> is the rounding of the
    doubles, and with the identity for \<open>fl\<close> the operations are exact).
    The three members that \<open>initialize\<close> computes with its unguarded divisions,
    \<open>wipe_distance_\<close>, \<open>half_wipe_distance_\<close> and \<open>distance_to_retraction_ratio_\<close>, can be
    an infinity or NaN: they are of the type \<open>double\<close> below, and so is whatever is
    computed from them. The positions and the steps hold finite numbers only;
  \<^item> the member functions take the object and return the new object; a function that
    can dereference a null pointer returns \<open>error + 'a\<close>, and so does a function at the
    point where it would compare with an infinity, or put an infinity or NaN into a
    position or a step (\<open>NonFinite\<close>: the code goes on there, the model does not follow
    it);
  \<^item> the anchors \<open>p_starting_position_\<close> and \<open>p_previous_starting_position_\<close> are
    pointers to objects that are never written after their construction, so the model
    holds the object pointed to (\<open>None\<close> for \<open>NULL\<close>) and leaves \<open>delete\<close> out;
    \<open>clip_wipe_path\<close>, which writes through its pointers, is modelled over an explicit
    store;
  \<^item> the tolerance of the comparison helpers of \<open>utilities\<close> is the parameter \<open>tol\<close>.
\<close>

datatype error = NullDereference | NonFinite

subsection \<open>Doubles that may be infinite or NaN\<close>

text \<open>
  A double is a finite number, an infinity or NaN. The model has no signed zero, so it
  does not know the sign of the infinity that a division by zero gives: \<open>Infinite\<close> is
  either infinity.
\<close>

datatype double = Finite real | Infinite | NaN

text \<open>
  The quotient of two doubles: a finite number divided by zero is NaN when it is zero
  itself and an infinity otherwise; a finite number divided by an infinity is zero.
\<close>

fun divide_double :: "double \<Rightarrow> double \<Rightarrow> double" where
  "divide_double (Finite a) (Finite b) =
     (if b \<noteq> 0 then Finite (a / b) else if a = 0 then NaN else Infinite)"
| "divide_double (Finite a) Infinite = Finite 0"
| "divide_double Infinite (Finite b) = Infinite"
| "divide_double Infinite Infinite = NaN"
| "divide_double NaN y = NaN"
| "divide_double x NaN = NaN"

text \<open>The product of two doubles: zero times an infinity is NaN.\<close>

fun times_double :: "double \<Rightarrow> double \<Rightarrow> double" where
  "times_double (Finite a) (Finite b) = Finite (a * b)"
| "times_double (Finite a) Infinite = (if a = 0 then NaN else Infinite)"
| "times_double Infinite (Finite b) = (if b = 0 then NaN else Infinite)"
| "times_double Infinite Infinite = Infinite"
| "times_double NaN y = NaN"
| "times_double x NaN = NaN"

text \<open>
  The difference of a double and a finite number, and of a finite number and a double.
  (The difference of two infinities depends on their signs; the source subtracts none.)
\<close>

fun minus_finite :: "double \<Rightarrow> real \<Rightarrow> double" where
  "minus_finite (Finite a) b = Finite (a - b)"
| "minus_finite Infinite b = Infinite"
| "minus_finite NaN b = NaN"

fun finite_minus :: "real \<Rightarrow> double \<Rightarrow> double" where
  "finite_minus a (Finite b) = Finite (a - b)"
| "finite_minus a Infinite = Infinite"
| "finite_minus a NaN = NaN"

subsection \<open>The rounding of doubles\<close>

text \<open>
  The result of an operation on doubles is the exact result rounded to the nearest
  number with a significand of 53 bits, to the even one of two that are equally near
  (IEEE 754 binary64, round to nearest even). \<open>ulp x\<close> is the distance of the doubles
  around \<open>x\<close>: the power of two \<open>u\<close> with \<open>2 ^ 52 * u \<le> \<bar>x\<bar> < 2 ^ 53 * u\<close>. The range of
  the exponent is not bounded in the model: it has no overflow and no subnormal
  numbers.
\<close>

definition nearest_even :: "real \<Rightarrow> int" where
  "nearest_even y =
     (let f = \<lfloor>y\<rfloor>
      in if y - of_int f < 1 / 2 then f
         else if 1 / 2 < y - of_int f then f + 1
         else if even f then f else f + 1)"

definition ulp :: "real \<Rightarrow> real" where
  "ulp x = 2 powr (of_int \<lfloor>log 2 \<bar>x\<bar>\<rfloor> - 52)"

definition round_double :: "real \<Rightarrow> real" where
  "round_double x =
     (if x = 0 then 0 else of_int (nearest_even (x / ulp x)) * ulp x)"

text \<open>
  The rounding of a result that may be infinite or NaN. (A finite result is taken to
  stay finite: overflow is not modelled.)
\<close>

fun round_with :: "(real \<Rightarrow> real) \<Rightarrow> double \<Rightarrow> double" where
  "round_with fl (Finite x) = Finite (fl x)"
| "round_with fl Infinite = Infinite"
| "round_with fl NaN = NaN"

subsection \<open>The helpers of utilities.h\<close>

text \<open>
  The comparison helpers of \<open>utilities\<close> are not among the sources (utilities.h,
  utilities.cpp). The spec calls them "floating-point equality with tolerance" and says
  that "all floating-point comparisons use a tolerance-based equality/ordering, not
  exact equality". The tolerance is the first argument of each helper.
\<close>

text \<open>
  Modelled from the spec: \<open>utilities::is_equal\<close>, equality with tolerance: two numbers
  are equal when they differ by less than the tolerance.
\<close>

definition is_equal :: "real \<Rightarrow> real \<Rightarrow> real \<Rightarrow> bool" where
  "is_equal tol x y = (\<bar>x - y\<bar> < tol)"

text \<open>Modelled from the spec: \<open>utilities::is_zero\<close>, equality with 0 within the tolerance.\<close>

definition is_zero :: "real \<Rightarrow> real \<Rightarrow> bool" where
  "is_zero tol x = (\<bar>x\<bar> < tol)"

text \<open>
  Modelled from the spec: \<open>utilities::greater_than\<close>, the tolerance-based strict
  ordering: greater, and not equal within the tolerance.
\<close>

definition greater_than :: "real \<Rightarrow> real \<Rightarrow> real \<Rightarrow> bool" where
  "greater_than tol x y = (x > y \<and> \<not> is_equal tol x y)"

text \<open>
  Modelled from the spec: \<open>utilities::greater_than_or_equal\<close>, the tolerance-based
  ordering: greater, or equal within the tolerance.
\<close>

definition greater_than_or_equal :: "real \<Rightarrow> real \<Rightarrow> real \<Rightarrow> bool" where
  "greater_than_or_equal tol x y = (x > y \<or> is_equal tol x y)"

text \<open>
  Modelled from the spec: \<open>utilities::less_than\<close>, the tolerance-based strict
  ordering: less, and not equal within the tolerance.
\<close>

definition less_than :: "real \<Rightarrow> real \<Rightarrow> real \<Rightarrow> bool" where
  "less_than tol x y = (x < y \<and> \<not> is_equal tol x y)"

text \<open>
  Modelled from the spec: \<open>utilities::get_cartesian_distance\<close>, the "cartesian
  distance" between the points \<open>(x1, y1)\<close> and \<open>(x2, y2)\<close>.
\<close>

definition get_cartesian_distance :: "real \<Rightarrow> real \<Rightarrow> real \<Rightarrow> real \<Rightarrow> real" where
  "get_cartesian_distance x1 y1 x2 y2 =
     sqrt ((x1 - x2) * (x1 - x2) + (y1 - y2) * (y1 - y2))"

text \<open>
  Modelled from the spec: \<open>wipe_distance_to_retraction_\<close> (declared in gcode_wiper.h,
  which is not among the sources). The spec gives the retraction owed for a travel
  distance as the distance times \<open>distance_to_retraction_ratio\<close>.
\<close>

definition wipe_distance_to_retraction :: "real \<Rightarrow> real \<Rightarrow> real" where
  "wipe_distance_to_retraction distance ratio = distance * ratio"

text \<open>
  Modelled from the spec: the same helper where its arguments can be infinite or NaN
  (in \<open>get_missing_retraction\<close>): the product of the doubles.
\<close>

definition wipe_distance_to_retraction_double :: "double \<Rightarrow> double \<Rightarrow> double" where
  "wipe_distance_to_retraction_double distance ratio = times_double distance ratio"

subsection \<open>Data\<close>

text \<open>
  The types \<open>gcode_wiper_args\<close>, \<open>position\<close>, \<open>gcode_wiper_position\<close> and
  \<open>gcode_wiper_step\<close> are declared in headers that are not among the sources. The
  records hold the members that gcode_wiper.cpp reads and the spec's data model lists.
  The members of \<open>gcode_wiper\<close> itself keep their names without the final underscore.
\<close>

text \<open>
  Modelled from the spec: \<open>gcode_wiper_args\<close>, the spec's WipeSettings; the members are
  the ones \<open>initialize\<close> and \<open>get_wipe_steps\<close> read from \<open>settings_\<close>.
\<close>

record gcode_wiper_args =
  retraction_length :: real
  retract_before_wipe_percent :: real
  retract_after_wipe_percent :: real
  retraction_feedrate :: real
  wipe_feedrate :: real
  x_y_travel_speed :: real

text \<open>
  Modelled from the spec: \<open>position\<close>, the spec's Position as \<open>update\<close> receives it. The
  source's members \<open>x_\<close>, \<open>y_\<close>, \<open>is_layer_change_\<close>, \<open>has_xy_position_changed_\<close>
  and \<open>is_extruding_\<close> are \<open>pos_x\<close>, \<open>pos_y\<close>, \<open>is_layer_change\<close>,
  \<open>has_xy_position_changed\<close> and \<open>is_extruding\<close>.
\<close>

record position =
  pos_x :: real
  pos_y :: real
  pos_offset_x :: real
  pos_offset_y :: real
  pos_offset_e :: real
  pos_is_relative :: bool
  pos_is_extruder_relative :: bool
  is_extruding :: bool
  has_xy_position_changed :: bool
  is_layer_change :: bool

text \<open>
  Modelled from the spec: \<open>gcode_wiper_position\<close>, the spec's Position as the history
  keeps it. The source's members \<open>x\<close>, \<open>y\<close> are \<open>wx\<close>, \<open>wy\<close>; its accessors
  \<open>get_offset_x()\<close>, \<open>get_offset_y()\<close>, \<open>get_offset_e()\<close> read the offset-adjusted
  coordinates, which the spec lists as data of a position.
\<close>

record gcode_wiper_position =
  wx :: real
  wy :: real
  get_offset_x :: real
  get_offset_y :: real
  get_offset_e :: real
  is_relative :: bool
  is_extruder_relative :: bool

text \<open>
  Modelled from the spec: the constructor \<open>gcode_wiper_position(position)\<close> copies the
  coordinates, the offset coordinates and the two axis modes of the position.
\<close>

definition gcode_wiper_position_of :: "position \<Rightarrow> gcode_wiper_position" where
  "gcode_wiper_position_of p =
     \<lparr>wx = pos_x p, wy = pos_y p,
      get_offset_x = pos_offset_x p, get_offset_y = pos_offset_y p,
      get_offset_e = pos_offset_e p,
      is_relative = pos_is_relative p,
      is_extruder_relative = pos_is_extruder_relative p\<rparr>"

text \<open>
  Modelled from the spec: \<open>gcode_wiper_step\<close>, the spec's WipeStep, with one
  constructor for each of the three constructors the source calls: a wipe move with an
  extrusion \<open>(x, y, e, f)\<close>, a travel move \<open>(x, y, f)\<close> and a retraction \<open>(e, f)\<close>.
\<close>

datatype gcode_wiper_step =
    WipeStep real real real real
  | TravelStep real real real
  | RetractStep real real

fun is_retract_step :: "gcode_wiper_step \<Rightarrow> bool" where
  "is_retract_step (RetractStep e f) = True"
| "is_retract_step (WipeStep x y e f) = False"
| "is_retract_step (TravelStep x y f) = False"

subsection \<open>The position history\<close>

text \<open>
  The container behind \<open>history_\<close> is declared in gcode_wiper.h, which is not among the
  sources. The spec describes "an ordered sequence of Position (insertion order =
  temporal order; oldest first)" that "supports append, prune-from-front, peek, and a
  single-level undo snapshot"; the source's comment at \<open>history_.remove()\<close> says that
  a removed entry stays in the undo list until the next \<open>clear\<close> or \<open>push_back\<close>.
\<close>

text \<open>
  Modelled from the spec: the history. \<open>items\<close> are the kept entries, oldest first;
  \<open>undo_items\<close> are the entries as they were before the last \<open>clear\<close> or \<open>push_back\<close>.
\<close>

record gcode_wiper_position_history =
  items :: "gcode_wiper_position list"
  undo_items :: "gcode_wiper_position list"

text \<open>Modelled from the spec: the history of a new wiper, "created empty at construction".\<close>

definition history_empty :: gcode_wiper_position_history where
  "history_empty = \<lparr>items = [], undo_items = []\<rparr>"

text \<open>Modelled from the spec: \<open>history_.size()\<close>, the number of kept entries.\<close>

definition history_size :: "gcode_wiper_position_history \<Rightarrow> nat" where
  "history_size h = length (items h)"

text \<open>
  Modelled from the spec: \<open>history_.clear()\<close> empties the history; the entries it held
  are the undo snapshot.
\<close>

definition history_clear :: "gcode_wiper_position_history \<Rightarrow> gcode_wiper_position_history" where
  "history_clear h = \<lparr>items = [], undo_items = items h\<rparr>"

text \<open>
  Modelled from the spec: \<open>history_.push_back(position)\<close> appends the position as the
  newest entry; the entries before the append are the undo snapshot.
\<close>

definition history_push_back ::
  "position \<Rightarrow> gcode_wiper_position_history \<Rightarrow> gcode_wiper_position_history" where
  "history_push_back p h =
     \<lparr>items = items h @ [gcode_wiper_position_of p], undo_items = items h\<rparr>"

text \<open>
  Modelled from the spec: \<open>history_.peek()\<close>, a pointer to the oldest kept entry, null
  when there is none.
\<close>

definition history_peek :: "gcode_wiper_position_history \<Rightarrow> gcode_wiper_position option" where
  "history_peek h = (case items h of [] \<Rightarrow> None | front # rest \<Rightarrow> Some front)"

text \<open>
  Modelled from the spec: \<open>history_.remove()\<close> removes the oldest kept entry and leaves
  the undo snapshot as it is.
\<close>

definition history_remove :: "gcode_wiper_position_history \<Rightarrow> gcode_wiper_position_history" where
  "history_remove h = h\<lparr>items := tl (items h)\<rparr>"

text \<open>Modelled from the spec: \<open>history_.undo()\<close> puts the undo snapshot back.\<close>

definition history_undo :: "gcode_wiper_position_history \<Rightarrow> gcode_wiper_position_history" where
  "history_undo h = h\<lparr>items := undo_items h\<rparr>"

text \<open>
  Modelled from the spec: \<open>history_.get_position_history(start_index)\<close> gives the
  vector of the entries and sets \<open>start_index\<close> to the index of the oldest kept one.
\<close>

definition get_position_history ::
  "gcode_wiper_position_history \<Rightarrow> gcode_wiper_position list \<times> nat" where
  "get_position_history h = (items h, 0)"

subsection \<open>The wiper and its constructors\<close>

record gcode_wiper =
  settings :: gcode_wiper_args
  total_distance :: real
  previous_total_distance :: real
  p_starting_position :: "gcode_wiper_position option"
  p_previous_starting_position :: "gcode_wiper_position option"
  is_initialized :: bool
  use_full_wipe :: bool
  pre_wipe_retract_length :: real
  post_wipe_retract_length :: real
  wipe_distance :: double
  half_wipe_distance :: double
  distance_to_retraction_ratio :: double
  history :: gcode_wiper_position_history

text \<open>Lines 35-42 of \<open>initialize\<close>: the two percentages are clamped at zero.\<close>

definition clamp_percents :: "real \<Rightarrow> gcode_wiper_args \<Rightarrow> gcode_wiper_args" where
  "clamp_percents tol a =
     (let a1 = (if less_than tol (retract_before_wipe_percent a) 0
                then a\<lparr>retract_before_wipe_percent := 0\<rparr> else a)
      in (if less_than tol (retract_after_wipe_percent a1) 0
          then a1\<lparr>retract_after_wipe_percent := 0\<rparr> else a1))"

text \<open>
  Lines 44-51 of \<open>initialize\<close>: the two percentages are scaled down when their sum is
  greater than 1. The division by the sum is guarded: the sum is greater than 1 there,
  and the quotient is a finite number. The argument \<open>fl\<close> rounds the result of each of
  the four operations. (The comparison helpers are left exact: in doubles the
  differences they test, of a number and 0 and of a sum and 1, are exact or far from
  the tolerance.)
\<close>

definition normalize_percents_rounded ::
  "(real \<Rightarrow> real) \<Rightarrow> real \<Rightarrow> gcode_wiper_args \<Rightarrow> gcode_wiper_args" where
  "normalize_percents_rounded fl tol a =
     (let c = clamp_percents tol a;
          total_retraction_percent =
            fl (retract_before_wipe_percent c + retract_after_wipe_percent c)
      in if greater_than tol total_retraction_percent 1 \<and> \<not> is_zero tol total_retraction_percent
         then (let reduction_ratio = fl (1 / total_retraction_percent)
               in c\<lparr>retract_before_wipe_percent :=
                       fl (reduction_ratio * retract_before_wipe_percent c),
                     retract_after_wipe_percent :=
                       fl (reduction_ratio * retract_after_wipe_percent c)\<rparr>)
         else c)"

text \<open>
  \<open>initialize\<close>, with \<open>fl\<close> for the rounding of each result. Lines 53-65 have no test
  and no exit: the two divisions, by \<open>retraction_feedrate\<close> and by the wipe distance,
  are made whatever the divisor is, their results are stored and the wiper is
  initialized.
\<close>

definition initialize_rounded :: "(real \<Rightarrow> real) \<Rightarrow> real \<Rightarrow> gcode_wiper \<Rightarrow> gcode_wiper" where
  "initialize_rounded fl tol w =
     (let st = normalize_percents_rounded fl tol (settings w);
          pre = fl (retraction_length st * retract_before_wipe_percent st);
          post = fl (retraction_length st * retract_after_wipe_percent st);
          wipe_retraction_length = fl (fl (retraction_length st - pre) - post);
          wipe_retraction_speed_ratio =
            round_with fl
              (divide_double (Finite (wipe_feedrate st)) (Finite (retraction_feedrate st)));
          wipe_dist =
            round_with fl
              (times_double (Finite wipe_retraction_length) wipe_retraction_speed_ratio)
      in w\<lparr>settings := st,
            pre_wipe_retract_length := pre,
            post_wipe_retract_length := post,
            distance_to_retraction_ratio :=
              round_with fl
                (divide_double (Finite (fl (fl (retraction_length st - pre) - post))) wipe_dist),
            wipe_distance := wipe_dist,
            half_wipe_distance := round_with fl (times_double wipe_dist (Finite 0.5)),
            is_initialized := True\<rparr>)"

text \<open>In exact arithmetic \<open>initialize\<close> rounds nothing.\<close>

definition normalize_percents :: "real \<Rightarrow> gcode_wiper_args \<Rightarrow> gcode_wiper_args" where
  "normalize_percents tol a = normalize_percents_rounded (\<lambda>x. x) tol a"

definition initialize :: "real \<Rightarrow> gcode_wiper \<Rightarrow> gcode_wiper" where
  "initialize tol w = initialize_rounded (\<lambda>x. x) tol w"

text \<open>
  The constructors \<open>gcode_wiper()\<close> (\<open>gcode_wiper_new\<close>) and
  \<open>gcode_wiper(gcode_wiper_args)\<close> (\<open>gcode_wiper_new_args\<close>, in exact arithmetic, and
  \<open>gcode_wiper_new_args_rounded\<close>) assign some members only. The others keep what the
  memory holds: the argument \<open>m\<close> is the object before the constructor runs.
\<close>

definition gcode_wiper_new :: "gcode_wiper \<Rightarrow> gcode_wiper" where
  "gcode_wiper_new m =
     m\<lparr>total_distance := 0, previous_total_distance := 0,
       p_starting_position := None, p_previous_starting_position := None,
       is_initialized := False, use_full_wipe := True,
       history := history_empty\<rparr>"

definition gcode_wiper_new_args_rounded ::
  "(real \<Rightarrow> real) \<Rightarrow> real \<Rightarrow> gcode_wiper \<Rightarrow> gcode_wiper_args \<Rightarrow> gcode_wiper" where
  "gcode_wiper_new_args_rounded fl tol m args =
     initialize_rounded fl tol ((gcode_wiper_new m)\<lparr>settings := args\<rparr>)"

definition gcode_wiper_new_args :: "real \<Rightarrow> gcode_wiper \<Rightarrow> gcode_wiper_args \<Rightarrow> gcode_wiper" where
  "gcode_wiper_new_args tol m args = gcode_wiper_new_args_rounded (\<lambda>x. x) tol m args"

subsection \<open>Undo\<close>

definition save_undo_data :: "gcode_wiper \<Rightarrow> gcode_wiper" where
  "save_undo_data w =
     w\<lparr>p_previous_starting_position := p_starting_position w,
       previous_total_distance := total_distance w\<rparr>"

text \<open>The source assigns \<open>false\<close> to the double \<open>previous_total_distance_\<close>: that is \<open>0.0\<close>.\<close>

definition restore_undo_data :: "gcode_wiper \<Rightarrow> gcode_wiper" where
  "restore_undo_data w =
     w\<lparr>p_starting_position := p_previous_starting_position w,
       p_previous_starting_position := None,
       total_distance := previous_total_distance w,
       previous_total_distance := 0\<rparr>"

definition undo :: "gcode_wiper \<Rightarrow> gcode_wiper" where
  "undo w = (let w1 = restore_undo_data w in w1\<lparr>history := history_undo (history w1)\<rparr>)"

subsection \<open>The wipe geometry\<close>

definition get_wipe_distance :: "gcode_wiper \<Rightarrow> double" where
  "get_wipe_distance w = (if use_full_wipe w then wipe_distance w else half_wipe_distance w)"

text \<open>
  In \<open>use_full_wipe_ - total_distance_\<close> the bool \<open>use_full_wipe_\<close>, true in this
  branch, is converted to the double \<open>1.0\<close>.
\<close>

definition get_missing_retraction :: "gcode_wiper \<Rightarrow> double" where
  "get_missing_retraction w =
     (if use_full_wipe w
      then wipe_distance_to_retraction_double
             (Finite ((if use_full_wipe w then 1 else 0) - total_distance w))
             (distance_to_retraction_ratio w)
      else wipe_distance_to_retraction_double
             (times_double (minus_finite (half_wipe_distance w) (total_distance w)) (Finite 2))
             (distance_to_retraction_ratio w))"

definition get_extra_retraction :: "gcode_wiper \<Rightarrow> double" where
  "get_extra_retraction w =
     (if use_full_wipe w then finite_minus (total_distance w) (wipe_distance w)
      else finite_minus (total_distance w) (half_wipe_distance w))"

subsection \<open>Pruning and update\<close>

text \<open>
  The loop of \<open>prune_history\<close>. \<open>history_.peek()\<close> on an empty history and a null
  \<open>p_starting_position_\<close> are dereferenced by the source: the model stops with
  \<open>NullDereference\<close>. The flag \<open>has_pruned_item\<close> is written and never read.
\<close>

function prune_loop :: "real \<Rightarrow> real \<Rightarrow> gcode_wiper \<Rightarrow> error + gcode_wiper" where
  "prune_loop tol distance w =
     (if total_distance w > distance
      then (case history_peek (history w) of
              None \<Rightarrow> Inl NullDereference
            | Some front_item \<Rightarrow>
               (case p_starting_position w of
                  None \<Rightarrow> Inl NullDereference
                | Some start \<Rightarrow>
                   (let distance_removed =
                          get_cartesian_distance (wx start) (wy start) (wx front_item) (wy front_item);
                        new_total_distance = total_distance w - distance_removed
                    in if less_than tol new_total_distance distance
                       then Inr w
                       else prune_loop tol distance
                              (w\<lparr>p_starting_position := Some front_item,
                                 total_distance := new_total_distance,
                                 history := history_remove (history w)\<rparr>))))
      else Inr w)"
  by pat_completeness auto
termination
  by (relation "measure (\<lambda>(tol, distance, w). history_size (history w))")
     (auto simp: history_peek_def history_size_def history_remove_def split: list.splits)

declare prune_loop.simps [simp del]

text \<open>
  \<open>prune_history\<close> runs the loop against the wipe distance. Against NaN the test
  \<open>total_distance_ > distance\<close> of the loop is false and nothing is pruned. Against an
  infinity the loop does not run or does not stop before the history is empty,
  according to the sign: the model stops.
\<close>

definition prune_history :: "real \<Rightarrow> gcode_wiper \<Rightarrow> error + gcode_wiper" where
  "prune_history tol w =
     (case get_wipe_distance w of
        Finite distance \<Rightarrow> prune_loop tol distance w
      | Infinite \<Rightarrow> Inl NonFinite
      | NaN \<Rightarrow> Inr w)"

definition update :: "real \<Rightarrow> position \<Rightarrow> position \<Rightarrow> gcode_wiper \<Rightarrow> error + gcode_wiper" where
  "update tol current previous w =
     (if \<not> is_initialized w then Inr w
      else
        (let w1 = save_undo_data w
         in if is_layer_change current
               \<or> \<not> (has_xy_position_changed current \<and> is_extruding current)
            then Inr (w1\<lparr>total_distance := 0, history := history_clear (history w1)\<rparr>)
            else
              (let w2 = (if history_size (history w1) = 0
                         then w1\<lparr>p_starting_position := Some (gcode_wiper_position_of previous)\<rparr>
                         else w1);
                   w3 = w2\<lparr>history := history_push_back current (history w2)\<rparr>;
                   w4 = w3\<lparr>previous_total_distance := total_distance w3\<rparr>;
                   w5 = w4\<lparr>total_distance := total_distance w4
                           + get_cartesian_distance (pos_x previous) (pos_y previous)
                               (pos_x current) (pos_y current)\<rparr>
               in prune_history tol w5)))"

subsection \<open>Clipping\<close>

text \<open>
  \<open>clip_wipe_path\<close> takes two pointers by reference, points them at new copies and
  writes the clipped coordinates through the second. The store maps an address to the
  object allocated there; \<open>new\<close> takes the next unused address. The division by the
  length of the segment is not guarded: for a segment of length 0 the ratio is an
  infinity or NaN and the coordinates written are NaN, which a position of the model
  cannot hold, so the model stops there.
\<close>

type_synonym addr = nat

record store =
  cells :: "addr \<Rightarrow> gcode_wiper_position option"
  next_free :: addr

definition new_gcode_wiper_position :: "gcode_wiper_position \<Rightarrow> store \<Rightarrow> addr \<times> store" where
  "new_gcode_wiper_position p st =
     (next_free st, st\<lparr>cells := (cells st)(next_free st \<mapsto> p), next_free := Suc (next_free st)\<rparr>)"

definition clip_wipe_path ::
  "real \<Rightarrow> addr \<Rightarrow> addr \<Rightarrow> store \<Rightarrow> error + (addr \<times> addr \<times> store)" where
  "clip_wipe_path distance_to_clip from_position to_position st =
     (case cells st from_position of
        None \<Rightarrow> Inl NullDereference
      | Some from_object \<Rightarrow>
         (let (from_copy, st1) = new_gcode_wiper_position from_object st
          in case cells st1 to_position of
               None \<Rightarrow> Inl NullDereference
             | Some to_object \<Rightarrow>
                (let (to_copy, st2) = new_gcode_wiper_position to_object st1
                 in case (cells st2 from_copy, cells st2 to_copy) of
                      (Some f, Some t) \<Rightarrow>
                        (let distance = get_cartesian_distance (wx f) (wy f) (wx t) (wy t)
                         in case divide_double (Finite (distance - distance_to_clip))
                                   (Finite distance) of
                              Finite kept_distance_ratio \<Rightarrow>
                               (let x_relative = (wx t - wx f) * kept_distance_ratio;
                                    y_relative = (wy t - wy f) * kept_distance_ratio
                                in Inr (from_copy, to_copy,
                                        st2\<lparr>cells := (cells st2)(to_copy \<mapsto>
                                               t\<lparr>wx := wx f + x_relative,
                                                 wy := wy f + y_relative\<rparr>)\<rparr>))
                            | _ \<Rightarrow> Inl NonFinite)
                    | _ \<Rightarrow> Inl NullDereference)))"

text \<open>
  The call of \<open>clip_wipe_path\<close> in \<open>get_wipe_steps\<close>: the first history entry and the
  anchor are the objects at the addresses 0 and 1, and the two objects the call leaves
  its pointers at are read back.
\<close>

definition clip_copies ::
  "real \<Rightarrow> gcode_wiper_position \<Rightarrow> gcode_wiper_position
     \<Rightarrow> error + (gcode_wiper_position \<times> gcode_wiper_position)" where
  "clip_copies distance_to_clip first_position start_position =
     (case clip_wipe_path distance_to_clip 0 (Suc 0)
             \<lparr>cells = [0 \<mapsto> first_position, Suc 0 \<mapsto> start_position], next_free = 2\<rparr> of
        Inl e \<Rightarrow> Inl e
      | Inr (from_copy, to_copy, st) \<Rightarrow>
         (case (cells st from_copy, cells st to_copy) of
            (Some f, Some t) \<Rightarrow> Inr (f, t)
          | _ \<Rightarrow> Inl NullDereference))"

subsection \<open>The wipe steps\<close>

text \<open>
  \<open>get_wipe_step\<close> returns the step and the new value of its reference parameter
  \<open>current_offset_e\<close>.
\<close>

definition get_wipe_step ::
  "gcode_wiper \<Rightarrow> gcode_wiper_position \<Rightarrow> gcode_wiper_position \<Rightarrow> real \<Rightarrow> real \<Rightarrow> real \<Rightarrow> bool
     \<Rightarrow> gcode_wiper_step \<times> real" where
  "get_wipe_step w start_position end_position retraction_relative offset_e f is_return =
     (let x = (if is_relative end_position then wx end_position - wx start_position
               else get_offset_x end_position);
          y = (if is_relative end_position then wy end_position - wy start_position
               else get_offset_y end_position)
      in if \<not> (use_full_wipe w \<and> is_return)
         then (if is_extruder_relative end_position
               then (WipeStep x y (- 1 * retraction_relative) f, offset_e)
               else (let e = offset_e - retraction_relative in (WipeStep x y e f, e)))
         else (TravelStep x y f, offset_e))"

definition get_retract_step :: "real \<Rightarrow> real \<Rightarrow> gcode_wiper_step" where
  "get_retract_step e f = RetractStep e f"

text \<open>The local variables of \<open>get_wipe_steps\<close> that its loops change.\<close>

record wipe_loop_state =
  wipe_steps :: "gcode_wiper_step list"
  previous_position :: "gcode_wiper_position option"
  current_position :: "gcode_wiper_position option"
  current_offset_e :: real
  feedrate :: real

text \<open>
  The body of the inner \<open>for\<close> loop, at one index of one pass: it chooses the position
  of the index (\<open>wipe_loop_body\<close>) and then visits it (\<open>wipe_loop_visit\<close>). The
  argument \<open>ratio\<close> is \<open>distance_to_retraction_ratio_\<close>, a finite number where the model
  comes to the loops.
\<close>

definition wipe_loop_visit ::
  "gcode_wiper \<Rightarrow> real \<Rightarrow> bool \<Rightarrow> nat \<Rightarrow> wipe_loop_state \<Rightarrow> gcode_wiper_position
     \<Rightarrow> wipe_loop_state" where
  "wipe_loop_visit w ratio has_pre_wipe_retract_length pass st cur =
     (case previous_position st of
        None \<Rightarrow>
          st\<lparr>current_position := Some cur,
             previous_position := Some cur,
             current_offset_e :=
               (if has_pre_wipe_retract_length
                then get_offset_e cur - pre_wipe_retract_length w
                else get_offset_e cur)\<rparr>
      | Some prev \<Rightarrow>
         (let segment_distance = get_cartesian_distance (wx prev) (wy prev) (wx cur) (wy cur);
              retraction_relative = wipe_distance_to_retraction segment_distance ratio;
              (step, e) = get_wipe_step w prev cur retraction_relative
                            (current_offset_e st) (feedrate st) (pass \<noteq> 0)
          in st\<lparr>wipe_steps := wipe_steps st @ [step],
                current_position := Some cur,
                previous_position := Some cur,
                current_offset_e := e,
                feedrate := - 1\<rparr>))"

definition wipe_loop_body ::
  "gcode_wiper \<Rightarrow> real \<Rightarrow> gcode_wiper_position list \<Rightarrow> nat \<Rightarrow> gcode_wiper_position \<Rightarrow> bool
     \<Rightarrow> nat \<Rightarrow> wipe_loop_state \<Rightarrow> nat \<Rightarrow> wipe_loop_state" where
  "wipe_loop_body w ratio positions start_index first_position has_pre_wipe_retract_length
       pass st index =
     wipe_loop_visit w ratio has_pre_wipe_retract_length pass st
       (if index = start_index then first_position else positions ! index)"

text \<open>
  Lines 281-289: the post-wipe retraction of this call, the configured length plus the
  missing retraction when that is not below zero. The argument is the missing
  retraction, a finite number.
\<close>

definition resolved_post_wipe_retract_length :: "real \<Rightarrow> gcode_wiper \<Rightarrow> real \<Rightarrow> real" where
  "resolved_post_wipe_retract_length tol w missing_retraction =
     (if greater_than_or_equal tol missing_retraction 0
      then post_wipe_retract_length w + missing_retraction
      else post_wipe_retract_length w)"

text \<open>
  Lines 305-340: the local variables before the loops, with the pre-wipe retraction as
  the first step when \<open>pre_wipe_retract_length_\<close> is \<open>greater_than\<close> 0.
\<close>

definition wipe_pre_retract ::
  "gcode_wiper \<Rightarrow> gcode_wiper_position list \<Rightarrow> bool \<Rightarrow> wipe_loop_state" where
  "wipe_pre_retract w positions has_pre_wipe_retract_length =
     (let last_position = positions ! (length positions - 1)
      in \<lparr>wipe_steps =
            (if has_pre_wipe_retract_length
             then [get_retract_step
                     (if is_extruder_relative last_position
                      then - 1 * pre_wipe_retract_length w
                      else get_offset_e last_position - pre_wipe_retract_length w)
                     (retraction_feedrate (settings w))]
             else []),
          previous_position = None,
          current_position = None,
          current_offset_e = 0,
          feedrate = wipe_feedrate (settings w)\<rparr>)"

text \<open>
  Lines 399-420, at the end of pass 0: the step from the last position visited to the
  anchor and the step back.
\<close>

definition wipe_turn_around ::
  "gcode_wiper \<Rightarrow> real \<Rightarrow> gcode_wiper_position \<Rightarrow> wipe_loop_state \<Rightarrow> error + wipe_loop_state" where
  "wipe_turn_around w ratio start_position st =
     (case previous_position st of
        None \<Rightarrow> Inl NullDereference
      | Some prev \<Rightarrow>
         (let segment_distance =
                get_cartesian_distance (wx prev) (wy prev) (wx start_position) (wy start_position);
              retraction_relative = wipe_distance_to_retraction segment_distance ratio;
              (step_out, e1) = get_wipe_step w prev start_position retraction_relative
                                 (current_offset_e st) (feedrate st) False;
              f2 = (if use_full_wipe w then x_y_travel_speed (settings w) else - 1);
              (step_back, e2) = get_wipe_step w start_position prev retraction_relative
                                  e1 f2 True
          in Inr (st\<lparr>wipe_steps := wipe_steps st @ [step_out, step_back],
                     current_offset_e := e2,
                     feedrate := f2\<rparr>)))"

text \<open>Lines 422-446: the post-wipe retraction, and the steps of the call.\<close>

definition wipe_post_retract ::
  "real \<Rightarrow> gcode_wiper \<Rightarrow> real \<Rightarrow> wipe_loop_state \<Rightarrow> gcode_wiper_step list" where
  "wipe_post_retract tol w post_length st =
     (case current_position st of
        None \<Rightarrow> wipe_steps st
      | Some cur \<Rightarrow>
          if post_length > 0
          then wipe_steps st @
                 [get_retract_step
                    (if is_extruder_relative cur then - 1 * post_length
                     else current_offset_e st - post_length)
                    (if \<not> is_equal tol (retraction_feedrate (settings w))
                             (wipe_feedrate (settings w))
                     then retraction_feedrate (settings w)
                     else feedrate st)]
          else wipe_steps st)"

text \<open>
  Lines 305-446: the pre-wipe retraction, the two passes over the indices (pass 0 from
  the last index down to \<open>start_index\<close>, then the pair of steps to the anchor and back,
  pass 1 from \<open>start_index + 1\<close> up to the last index) and the post-wipe retraction.
\<close>

definition emit_wipe_steps ::
  "real \<Rightarrow> gcode_wiper \<Rightarrow> real \<Rightarrow> gcode_wiper_position list \<Rightarrow> nat \<Rightarrow> gcode_wiper_position
     \<Rightarrow> gcode_wiper_position \<Rightarrow> real \<Rightarrow> error + gcode_wiper_step list" where
  "emit_wipe_steps tol w ratio positions start_index first_position start_position post_length =
     (let has_pre_wipe_retract_length = greater_than tol (pre_wipe_retract_length w) 0;
          st0 = wipe_pre_retract w positions has_pre_wipe_retract_length;
          st1 = foldl (wipe_loop_body w ratio positions start_index first_position
                         has_pre_wipe_retract_length 0)
                  st0 (rev [start_index..<length positions])
      in case wipe_turn_around w ratio start_position st1 of
           Inl e \<Rightarrow> Inl e
         | Inr st2 \<Rightarrow>
             Inr (wipe_post_retract tol w post_length
                    (foldl (wipe_loop_body w ratio positions start_index first_position
                              has_pre_wipe_retract_length 1)
                       st2 [Suc start_index..<length positions])))"

text \<open>
  \<open>get_wipe_steps\<close> appends to the vector of its caller; the model returns the steps it
  appends. The two clipped copies are deleted at the end of the call. After the test
  of line 265 the steps are computed from the missing retraction, the extra distance
  and \<open>distance_to_retraction_ratio_\<close>: when one of them is an infinity or NaN the
  steps of the code hold infinities or NaN, and the model stops.
\<close>

definition get_wipe_steps :: "real \<Rightarrow> gcode_wiper \<Rightarrow> error + gcode_wiper_step list" where
  "get_wipe_steps tol w =
     (let num_positions = history_size (history w)
      in if total_distance w = 0 \<or> p_starting_position w = None \<or> num_positions < 1
         then Inr []
         else
           (case p_starting_position w of
              None \<Rightarrow> Inr []
            | Some start_position \<Rightarrow>
               (case get_missing_retraction w of
                  Finite missing_retraction \<Rightarrow>
                   (case get_extra_retraction w of
                      Finite extra_distance \<Rightarrow>
                       (case distance_to_retraction_ratio w of
                          Finite ratio \<Rightarrow>
                           (let post_length =
                                  resolved_post_wipe_retract_length tol w missing_retraction;
                                (positions, start_index) = get_position_history (history w);
                                first_position = positions ! start_index
                            in case (if greater_than tol extra_distance 0
                                     then clip_copies extra_distance first_position start_position
                                     else Inr (first_position, start_position)) of
                                 Inl e \<Rightarrow> Inl e
                               | Inr (first_clipped, start_clipped) \<Rightarrow>
                                   emit_wipe_steps tol w ratio positions start_index
                                     first_clipped start_clipped post_length)
                        | _ \<Rightarrow> Inl NonFinite)
                    | _ \<Rightarrow> Inl NonFinite)
                | _ \<Rightarrow> Inl NonFinite)))"

subsection \<open>The states of a wiper\<close>

text \<open>
  The states a wiper can be in: built by one of the two constructors, then changed by
  \<open>initialize\<close> (after any assignment to its settings), by \<open>update\<close>, by \<open>undo\<close> and by
  the public switch \<open>use_full_wipe\<close> of the spec. \<open>get_wipe_steps\<close> changes no member.
  The results of \<open>initialize\<close> are rounded in any way, or not at all.
\<close>

inductive reachable :: "real \<Rightarrow> gcode_wiper \<Rightarrow> bool" for tol :: real where
  constructed: "reachable tol (gcode_wiper_new m)"
| constructed_args: "reachable tol (gcode_wiper_new_args_rounded fl tol m args)"
| initialized: "reachable tol w \<Longrightarrow> reachable tol (initialize_rounded fl tol (w\<lparr>settings := args\<rparr>))"
| updated: "reachable tol w \<Longrightarrow> update tol current previous w = Inr w' \<Longrightarrow> reachable tol w'"
| undone: "reachable tol w \<Longrightarrow> reachable tol (undo w)"
| switched: "reachable tol w \<Longrightarrow> reachable tol (w\<lparr>use_full_wipe := b\<rparr>)"

text \<open>
  A wiper whose wipe distance is 0 in both modes and that holds no path: no distance,
  no entry, and none to undo.
\<close>

definition wipe_disabled :: "gcode_wiper \<Rightarrow> bool" where
  "wipe_disabled w =
     (wipe_distance w = Finite 0 \<and> half_wipe_distance w = Finite 0
      \<and> total_distance w = 0 \<and> previous_total_distance w = 0
      \<and> items (history w) = [] \<and> undo_items (history w) = [])"

text \<open>
  The states of a wiper that is constructed from settings which make the wipe distance
  0 (with a rounding that leaves 0 as it is, or none), and then changed by \<open>update\<close>,
  \<open>undo\<close> and the switch \<open>use_full_wipe\<close>, the moves that \<open>update\<close> appends being of a
  length above 0.
\<close>

inductive zero_wipe_reachable :: "real \<Rightarrow> gcode_wiper \<Rightarrow> bool" for tol :: real where
  zero_constructed:
    "fl 0 = 0 \<Longrightarrow> wipe_distance (gcode_wiper_new_args_rounded fl tol m args) = Finite 0 \<Longrightarrow>
       zero_wipe_reachable tol (gcode_wiper_new_args_rounded fl tol m args)"
| zero_updated:
    "zero_wipe_reachable tol w \<Longrightarrow> update tol current previous w = Inr w' \<Longrightarrow>
       is_layer_change current \<or> \<not> (has_xy_position_changed current \<and> is_extruding current)
         \<or> 0 < get_cartesian_distance (pos_x previous) (pos_y previous)
                 (pos_x current) (pos_y current) \<Longrightarrow>
       zero_wipe_reachable tol w'"
| zero_undone: "zero_wipe_reachable tol w \<Longrightarrow> zero_wipe_reachable tol (undo w)"
| zero_switched: "zero_wipe_reachable tol w \<Longrightarrow> zero_wipe_reachable tol (w\<lparr>use_full_wipe := b\<rparr>)"

subsection \<open>The order of the wipe path, as the spec words it\<close>

text \<open>
  The spec's order of the moves of a wipe: the outbound segments from the newest entry
  back to the oldest, the turn-around pair to the anchor and back, the return segments
  from the oldest entry to the newest. A segment is its two end points and whether it
  belongs to the return leg.
\<close>

fun wipe_path ::
  "gcode_wiper_position list \<Rightarrow> gcode_wiper_position
     \<Rightarrow> (gcode_wiper_position \<times> gcode_wiper_position \<times> bool) list" where
  "wipe_path [] start = []"
| "wipe_path (oldest # newer) start =
     map (\<lambda>(a, b). (a, b, False)) (zip (rev (oldest # newer)) (tl (rev (oldest # newer))))
     @ [(oldest, start, False), (start, oldest, True)]
     @ map (\<lambda>(a, b). (a, b, True)) (zip (oldest # newer) newer)"

text \<open>
  The move of a step (its target and whether it extrudes; a retraction is no move) and
  the move a segment asks for: a return segment of a full wipe is a travel.
\<close>

fun motion_of :: "gcode_wiper_step \<Rightarrow> (real \<times> real \<times> bool) option" where
  "motion_of (WipeStep x y e f) = Some (x, y, True)"
| "motion_of (TravelStep x y f) = Some (x, y, False)"
| "motion_of (RetractStep e f) = None"

fun segment_motion ::
  "gcode_wiper \<Rightarrow> gcode_wiper_position \<times> gcode_wiper_position \<times> bool \<Rightarrow> real \<times> real \<times> bool" where
  "segment_motion w (a, b, is_return) =
     (if is_relative b then wx b - wx a else get_offset_x b,
      if is_relative b then wy b - wy a else get_offset_y b,
      \<not> (use_full_wipe w \<and> is_return))"

text \<open>
  The spec's clipped end point: \<open>to\<close> moved towards \<open>from\<close> so that the segment loses
  \<open>distance_to_clip\<close> of its length.
\<close>

definition clipped_position ::
  "real \<Rightarrow> gcode_wiper_position \<Rightarrow> gcode_wiper_position \<Rightarrow> gcode_wiper_position" where
  "clipped_position distance_to_clip from_object to_object =
     (let segment_length = get_cartesian_distance (wx from_object) (wy from_object)
                             (wx to_object) (wy to_object)
      in to_object
           \<lparr>wx := wx from_object
                  + (wx to_object - wx from_object) * ((segment_length - distance_to_clip) / segment_length),
            wy := wy from_object
                  + (wy to_object - wy from_object) * ((segment_length - distance_to_clip) / segment_length)\<rparr>)"

subsection \<open>Concrete inputs\<close>

text \<open>
  A tolerance of \<open>5e-9\<close>, the settings of the spec's concrete scenario, a memory of
  zeros for the constructors to run on, and an extruding move to \<open>(x, y)\<close> with
  both axis modes relative.
\<close>

definition demo_tol :: real where
  "demo_tol = 1 / 200000000"

definition demo_args :: gcode_wiper_args where
  "demo_args =
     \<lparr>retraction_length = 2, retract_before_wipe_percent = 1 / 5,
      retract_after_wipe_percent = 1 / 5, retraction_feedrate = 1800,
      wipe_feedrate = 3600, x_y_travel_speed = 6000\<rparr>"

definition blank_wiper :: gcode_wiper where
  "blank_wiper =
     \<lparr>settings = \<lparr>retraction_length = 0, retract_before_wipe_percent = 0,
                  retract_after_wipe_percent = 0, retraction_feedrate = 0,
                  wipe_feedrate = 0, x_y_travel_speed = 0\<rparr>,
      total_distance = 0, previous_total_distance = 0,
      p_starting_position = None, p_previous_starting_position = None,
      is_initialized = False, use_full_wipe = False,
      pre_wipe_retract_length = 0, post_wipe_retract_length = 0,
      wipe_distance = Finite 0, half_wipe_distance = Finite 0,
      distance_to_retraction_ratio = Finite 0,
      history = history_empty\<rparr>"

definition extruding_move :: "real \<Rightarrow> real \<Rightarrow> position" where
  "extruding_move x y =
     \<lparr>pos_x = x, pos_y = y, pos_offset_x = x, pos_offset_y = y, pos_offset_e = 0,
      pos_is_relative = True, pos_is_extruder_relative = True,
      is_extruding = True, has_xy_position_changed = True, is_layer_change = False\<rparr>"

definition wiper_at :: "real \<Rightarrow> real \<Rightarrow> gcode_wiper_position" where
  "wiper_at x y = gcode_wiper_position_of (extruding_move x y)"

text \<open>The wiper built from the scenario's settings, and after one move from (0, 0) to (1, 0).\<close>

definition demo_wiper :: gcode_wiper where
  "demo_wiper =
     \<lparr>settings = demo_args,
      total_distance = 0, previous_total_distance = 0,
      p_starting_position = None, p_previous_starting_position = None,
      is_initialized = True, use_full_wipe = True,
      pre_wipe_retract_length = 2 / 5, post_wipe_retract_length = 2 / 5,
      wipe_distance = Finite (12 / 5), half_wipe_distance = Finite (6 / 5),
      distance_to_retraction_ratio = Finite (1 / 2),
      history = history_empty\<rparr>"

definition demo_wiper_moved :: gcode_wiper where
  "demo_wiper_moved =
     demo_wiper\<lparr>total_distance := 1,
                p_starting_position := Some (wiper_at 0 0),
                history := \<lparr>items = [wiper_at 1 0], undo_items = []\<rparr>\<rparr>"

text \<open>The same wiper after the three moves (0, 0) to (1, 0) to (2, 0) to (3, 0).\<close>

definition demo_wiper_three :: gcode_wiper where
  "demo_wiper_three =
     demo_wiper\<lparr>total_distance := 3, previous_total_distance := 2,
                p_starting_position := Some (wiper_at 0 0),
                p_previous_starting_position := Some (wiper_at 0 0),
                history := \<lparr>items = [wiper_at 1 0, wiper_at 2 0, wiper_at 3 0],
                            undo_items = [wiper_at 1 0, wiper_at 2 0]\<rparr>\<rparr>"

text \<open>
  Settings with a pre-wipe retraction of \<open>1e-9\<close> and no post-wipe retraction, and the
  wiper they give after a move from (0, 0) to (1, 0).
\<close>

definition tiny_pre_args :: gcode_wiper_args where
  "tiny_pre_args =
     \<lparr>retraction_length = 1, retract_before_wipe_percent = 1 / 1000000000,
      retract_after_wipe_percent = 0, retraction_feedrate = 1800,
      wipe_feedrate = 3600, x_y_travel_speed = 6000\<rparr>"

definition tiny_pre_wiper :: gcode_wiper where
  "tiny_pre_wiper =
     \<lparr>settings = tiny_pre_args,
      total_distance = 1, previous_total_distance = 0,
      p_starting_position = Some (wiper_at 0 0), p_previous_starting_position = None,
      is_initialized = True, use_full_wipe = True,
      pre_wipe_retract_length = 1 / 1000000000, post_wipe_retract_length = 0,
      wipe_distance = Finite (999999999 / 500000000),
      half_wipe_distance = Finite (999999999 / 1000000000),
      distance_to_retraction_ratio = Finite (1 / 2),
      history = \<lparr>items = [wiper_at 1 0], undo_items = []\<rparr>\<rparr>"

text \<open>
  Settings with a post-wipe retraction of \<open>1e-9\<close> and no pre-wipe retraction, and the
  wiper they give after a move from (0, 0) to \<open>(1 + 4e-9, 0)\<close>.
\<close>

definition tiny_post_args :: gcode_wiper_args where
  "tiny_post_args =
     \<lparr>retraction_length = 1, retract_before_wipe_percent = 0,
      retract_after_wipe_percent = 1 / 1000000000, retraction_feedrate = 1800,
      wipe_feedrate = 3600, x_y_travel_speed = 6000\<rparr>"

definition tiny_post_wiper :: gcode_wiper where
  "tiny_post_wiper =
     \<lparr>settings = tiny_post_args,
      total_distance = 1 + 4 / 1000000000, previous_total_distance = 0,
      p_starting_position = Some (wiper_at 0 0), p_previous_starting_position = None,
      is_initialized = True, use_full_wipe = True,
      pre_wipe_retract_length = 0, post_wipe_retract_length = 1 / 1000000000,
      wipe_distance = Finite (999999999 / 500000000),
      half_wipe_distance = Finite (999999999 / 1000000000),
      distance_to_retraction_ratio = Finite (1 / 2),
      history = \<lparr>items = [wiper_at (1 + 4 / 1000000000) 0], undo_items = []\<rparr>\<rparr>"

text \<open>
  Settings whose percentages, 50% and \<open>50% + 1e-9\<close>, add up to more than 1 within the
  tolerance: they are not scaled down, and the wipe distance is \<open>-4e-9\<close>. And settings
  with a retraction length of 0, whose wipe distance is 0.
\<close>

definition surplus_args :: gcode_wiper_args where
  "surplus_args =
     demo_args\<lparr>retract_before_wipe_percent := 1 / 2,
               retract_after_wipe_percent := 1 / 2 + 1 / 1000000000\<rparr>"

definition no_retraction_args :: gcode_wiper_args where
  "no_retraction_args = demo_args\<lparr>retraction_length := 0\<rparr>"

text \<open>The wiper that the constructor builds from the settings with no retraction.\<close>

definition no_retraction_wiper :: gcode_wiper where
  "no_retraction_wiper =
     blank_wiper\<lparr>settings := no_retraction_args, is_initialized := True,
                 use_full_wipe := True, distance_to_retraction_ratio := NaN\<rparr>"


section \<open>Properties\<close>

subsection \<open>Helpers\<close>

lemmas demo_defs =
  demo_tol_def demo_args_def blank_wiper_def extruding_move_def wiper_at_def demo_wiper_def
  demo_wiper_moved_def demo_wiper_three_def tiny_pre_args_def tiny_pre_wiper_def
  tiny_post_args_def tiny_post_wiper_def surplus_args_def no_retraction_args_def
  no_retraction_wiper_def
  history_empty_def gcode_wiper_position_of_def

lemmas comparison_defs =
  is_equal_def is_zero_def greater_than_def greater_than_or_equal_def less_than_def

lemmas history_defs =
  history_size_def history_clear_def history_push_back_def history_peek_def history_remove_def
  history_undo_def get_position_history_def

lemmas update_defs =
  update_def save_undo_data_def prune_history_def get_wipe_distance_def Let_def

lemmas initialize_defs =
  gcode_wiper_new_args_def gcode_wiper_new_args_rounded_def gcode_wiper_new_def
  initialize_def initialize_rounded_def
  normalize_percents_def normalize_percents_rounded_def clamp_percents_def Let_def

lemma get_cartesian_distance_same_y:
  "get_cartesian_distance x1 y x2 y = \<bar>x1 - x2\<bar>"
  by (simp add: get_cartesian_distance_def)

lemma get_cartesian_distance_nonneg: "0 \<le> get_cartesian_distance x1 y1 x2 y2"
  by (simp add: get_cartesian_distance_def)

text \<open>What the loop of \<open>prune_history\<close> keeps true, it keeps true to its end.\<close>

lemma prune_loop_invariant:
  assumes run: "prune_loop tol d w = Inr w'"
    and init: "P w"
    and step: "\<And>v front_item start.
        P v \<Longrightarrow> d < total_distance v \<Longrightarrow> history_peek (history v) = Some front_item \<Longrightarrow>
        p_starting_position v = Some start \<Longrightarrow>
        \<not> less_than tol (total_distance v
             - get_cartesian_distance (wx start) (wy start) (wx front_item) (wy front_item)) d \<Longrightarrow>
        P (v\<lparr>p_starting_position := Some front_item,
              total_distance := total_distance v
                - get_cartesian_distance (wx start) (wy start) (wx front_item) (wy front_item),
              history := history_remove (history v)\<rparr>)"
  shows "P w'"
  using run init step
proof (induction tol d w rule: prune_loop.induct)
  case (1 tol distance w)
  show ?case
  proof (cases "total_distance w > distance")
    case False
    with "1.prems"(1,2) show ?thesis by (simp add: prune_loop.simps)
  next
    case True
    from True "1.prems"(1) obtain front_item start where
      pk: "history_peek (history w) = Some front_item" and st: "p_starting_position w = Some start"
      by (auto simp: prune_loop.simps[of tol distance w] split: option.splits)
    let ?nt = "total_distance w
      - get_cartesian_distance (wx start) (wy start) (wx front_item) (wy front_item)"
    show ?thesis
    proof (cases "less_than tol ?nt distance")
      case True
      with \<open>total_distance w > distance\<close> pk st "1.prems"(1,2) show ?thesis
        by (simp add: prune_loop.simps[of tol distance w] Let_def)
    next
      case False
      let ?w = "w\<lparr>p_starting_position := Some front_item, total_distance := ?nt,
                   history := history_remove (history w)\<rparr>"
      from False \<open>total_distance w > distance\<close> pk st "1.prems"(1)
      have r: "prune_loop tol distance ?w = Inr w'"
        by (simp add: prune_loop.simps[of tol distance w] Let_def)
      have "P ?w" using "1.prems"(3)[OF "1.prems"(2) True pk st False] .
      from "1.IH"[OF True pk st refl refl False r this "1.prems"(3)] show ?thesis .
    qed
  qed
qed

lemma prune_loop_frame:
  assumes "prune_loop tol d w = Inr w'"
  shows "is_initialized w' = is_initialized w
     \<and> use_full_wipe w' = use_full_wipe w
     \<and> p_previous_starting_position w' = p_previous_starting_position w
     \<and> previous_total_distance w' = previous_total_distance w
     \<and> settings w' = settings w
     \<and> wipe_distance w' = wipe_distance w
     \<and> half_wipe_distance w' = half_wipe_distance w"
  by (rule prune_loop_invariant[OF assms, where P = "\<lambda>v. is_initialized v = is_initialized w
     \<and> use_full_wipe v = use_full_wipe w
     \<and> p_previous_starting_position v = p_previous_starting_position w
     \<and> previous_total_distance v = previous_total_distance w
     \<and> settings v = settings w
     \<and> wipe_distance v = wipe_distance w
     \<and> half_wipe_distance v = half_wipe_distance w"]) simp_all

lemma update_frame:
  assumes "update tol c p w = Inr w'"
  shows "is_initialized w' = is_initialized w"
proof (cases "is_initialized w")
  case False
  with assms show ?thesis by (simp add: update_def)
next
  case True
  show ?thesis
  proof (cases "is_layer_change c \<or> \<not> (has_xy_position_changed c \<and> is_extruding c)")
    case True
    with assms \<open>is_initialized w\<close> show ?thesis
      by (auto simp: update_def Let_def save_undo_data_def)
  next
    case False
    with assms \<open>is_initialized w\<close> show ?thesis
      by (auto simp: update_def Let_def save_undo_data_def prune_history_def
          dest!: prune_loop_frame split: if_splits double.splits)
  qed
qed


lemma initialize_initialized: "is_initialized (initialize_rounded fl tol w)"
  by (simp add: initialize_rounded_def Let_def)

text \<open>A wiper that was never initialized is as its constructor left it.\<close>

lemma reachable_uninitialized:
  assumes "reachable tol w" "\<not> is_initialized w"
  shows "total_distance w = 0 \<and> previous_total_distance w = 0
       \<and> p_starting_position w = None \<and> p_previous_starting_position w = None
       \<and> items (history w) = [] \<and> undo_items (history w) = []"
  using assms
proof (induction rule: reachable.induct)
  case (constructed m)
  show ?case by (simp add: gcode_wiper_new_def history_empty_def)
next
  case (constructed_args fl m args)
  then show ?case by (simp add: gcode_wiper_new_args_rounded_def initialize_initialized)
next
  case (initialized w fl args)
  then show ?case by (simp add: initialize_initialized)
next
  case (updated w current previous w')
  from updated.hyps(2) updated.prems have ni: "\<not> is_initialized w"
    by (auto dest: update_frame)
  with updated.hyps(2) have "w' = w" by (simp add: update_def)
  with updated.IH ni show ?case by simp
next
  case (undone w)
  then show ?case by (simp add: undo_def restore_undo_data_def Let_def history_undo_def)
next
  case (switched w b)
  then show ?case by simp
qed

subsection \<open>The concrete wipers\<close>

lemma demo_wiper_constructed:
  "gcode_wiper_new_args demo_tol blank_wiper demo_args = demo_wiper"
  by (simp add: initialize_defs demo_defs comparison_defs)

lemma demo_wiper_moved_update:
  "update demo_tol (extruding_move 1 0) (extruding_move 0 0) demo_wiper = Inr demo_wiper_moved"
  by (simp add: update_defs prune_loop.simps demo_defs comparison_defs history_defs
      get_cartesian_distance_same_y)

lemma constructed_args_reachable: "reachable tol (gcode_wiper_new_args tol m args)"
  unfolding gcode_wiper_new_args_def by (rule reachable.constructed_args)

lemma demo_wiper_reachable: "reachable demo_tol demo_wiper"
  using constructed_args_reachable[of demo_tol blank_wiper demo_args]
  by (simp only: demo_wiper_constructed)

lemma demo_wiper_moved_reachable: "reachable demo_tol demo_wiper_moved"
  by (rule reachable.updated[OF demo_wiper_reachable demo_wiper_moved_update])

lemma blank_wiper_reachable: "reachable demo_tol (gcode_wiper_new blank_wiper)"
  by (rule reachable.constructed)

subsection \<open>Undo\<close>

text \<open>
  Claim C10. Two calls of \<open>undo\<close> in a row leave no starting position and a total
  distance of 0, whatever the wiper was: the first call takes the anchor and the distance
  out of the undo slot and leaves \<open>NULL\<close> and 0 there, and the second call restores
  these. For a wiper with a saved anchor the two calls give different wipers, so \<open>undo\<close>
  is not idempotent.
\<close>

theorem undo_twice_clears:
  "p_starting_position (undo (undo w)) = None
   \<and> total_distance (undo (undo w)) = 0
   \<and> p_previous_starting_position (undo w) = None
   \<and> previous_total_distance (undo w) = 0
   \<and> p_starting_position (undo w) = p_previous_starting_position w
   \<and> total_distance (undo w) = previous_total_distance w
   \<and> (\<exists>v. reachable demo_tol v \<and> undo (undo v) \<noteq> undo v)"
proof -
  let ?v = "demo_wiper_moved\<lparr>p_previous_starting_position := Some (wiper_at 0 0)\<rparr>"
  have "update demo_tol (extruding_move 2 0) (extruding_move 1 0) demo_wiper_moved
        = Inr (demo_wiper_moved\<lparr>total_distance := 2, previous_total_distance := 1,
                 p_previous_starting_position := Some (wiper_at 0 0),
                 history := \<lparr>items = [wiper_at 1 0, wiper_at 2 0], undo_items = [wiper_at 1 0]\<rparr>\<rparr>)"
    (is "_ = Inr ?u")
    by (simp add: update_defs prune_loop.simps demo_defs comparison_defs history_defs
        get_cartesian_distance_same_y)
  from reachable.updated[OF demo_wiper_moved_reachable this]
  have "reachable demo_tol ?u" .
  moreover have "p_starting_position (undo (undo ?u)) \<noteq> p_starting_position (undo ?u)"
    by (simp add: undo_def restore_undo_data_def Let_def demo_defs)
  then have "undo (undo ?u) \<noteq> undo ?u" by metis
  ultimately have "\<exists>v. reachable demo_tol v \<and> undo (undo v) \<noteq> undo v" by blast
  then show ?thesis by (simp add: undo_def restore_undo_data_def Let_def)
qed




subsection \<open>Update\<close>

text \<open>
  Claim C6. For every state of a wiper and every current position that is a layer
  change, or that is not an extruding move in X or Y, \<open>update\<close> returns with an empty
  history and a total distance of 0.
\<close>

theorem update_reset:
  assumes "reachable tol w"
    and "is_layer_change c \<or> \<not> (has_xy_position_changed c \<and> is_extruding c)"
  shows "\<exists>w'. update tol c p w = Inr w' \<and> items (history w') = []
           \<and> history_size (history w') = 0 \<and> total_distance w' = 0"
proof (cases "is_initialized w")
  case True
  with assms(2) show ?thesis
    by (auto simp: update_def Let_def history_clear_def history_size_def)
next
  case False
  with reachable_uninitialized[OF assms(1) False] show ?thesis
    by (simp add: update_def history_size_def)
qed

text \<open>The witness: a layer change after the first move.\<close>

theorem update_reset_witness:
  "reachable demo_tol demo_wiper_moved
   \<and> is_layer_change ((extruding_move 2 0)\<lparr>is_layer_change := True\<rparr>)
   \<and> total_distance demo_wiper_moved = 1
   \<and> items (history demo_wiper_moved) = [wiper_at 1 0]
   \<and> update demo_tol ((extruding_move 2 0)\<lparr>is_layer_change := True\<rparr>)
        (extruding_move 1 0) demo_wiper_moved
      = Inr (demo_wiper_moved\<lparr>total_distance := 0, previous_total_distance := 1,
               p_previous_starting_position := Some (wiper_at 0 0),
               history := \<lparr>items = [], undo_items = [wiper_at 1 0]\<rparr>\<rparr>)"
proof -
  have lc: "is_layer_change ((extruding_move 2 0)\<lparr>is_layer_change := True\<rparr>)
      \<or> \<not> (has_xy_position_changed ((extruding_move 2 0)\<lparr>is_layer_change := True\<rparr>)
           \<and> is_extruding ((extruding_move 2 0)\<lparr>is_layer_change := True\<rparr>))"
    by simp
  have u: "update demo_tol ((extruding_move 2 0)\<lparr>is_layer_change := True\<rparr>)
        (extruding_move 1 0) demo_wiper_moved
      = Inr (demo_wiper_moved\<lparr>total_distance := 0, previous_total_distance := 1,
               p_previous_starting_position := Some (wiper_at 0 0),
               history := \<lparr>items = [], undo_items = [wiper_at 1 0]\<rparr>\<rparr>)"
    by (simp add: update_defs demo_defs history_defs)
  from update_reset[OF demo_wiper_moved_reachable lc, of "extruding_move 1 0"]
    demo_wiper_moved_reachable u
  show ?thesis by (simp add: demo_wiper_moved_def)
qed

text \<open>
  Claim C9. As long as \<open>initialize\<close> has not run, whatever was called before,
  \<open>update\<close> returns the wiper as it was, for every pair of positions, and
  \<open>get_wipe_steps\<close> produces no step.
\<close>

theorem uninitialized_no_op:
  assumes "reachable tol w" and "\<not> is_initialized w"
  shows "update tol c p w = Inr w \<and> get_wipe_steps tol w = Inr []"
  using reachable_uninitialized[OF assms] assms(2)
  by (simp add: update_def get_wipe_steps_def)

text \<open>The witness: a wiper from the default constructor, after an \<open>update\<close> and an \<open>undo\<close>.\<close>

theorem uninitialized_no_op_witness:
  "reachable demo_tol (undo (gcode_wiper_new blank_wiper))
   \<and> \<not> is_initialized (undo (gcode_wiper_new blank_wiper))
   \<and> update demo_tol (extruding_move 1 0) (extruding_move 0 0) (undo (gcode_wiper_new blank_wiper))
       = Inr (undo (gcode_wiper_new blank_wiper))
   \<and> get_wipe_steps demo_tol (undo (gcode_wiper_new blank_wiper)) = Inr []"
proof -
  have u: "update demo_tol (extruding_move 1 0) (extruding_move 0 0) (gcode_wiper_new blank_wiper)
             = Inr (gcode_wiper_new blank_wiper)"
    by (simp add: update_def gcode_wiper_new_def)
  have r: "reachable demo_tol (undo (gcode_wiper_new blank_wiper))"
    by (rule reachable.undone[OF reachable.updated[OF blank_wiper_reachable u]])
  have n: "\<not> is_initialized (undo (gcode_wiper_new blank_wiper))"
    by (simp add: undo_def restore_undo_data_def gcode_wiper_new_def Let_def)
  from uninitialized_no_op[OF r n, of "extruding_move 1 0" "extruding_move 0 0"] r n
  show ?thesis by simp
qed

subsection \<open>The percentages of initialize\<close>

lemma clamp_percents_fields:
  "retract_before_wipe_percent (clamp_percents tol a) =
     (if less_than tol (retract_before_wipe_percent a) 0 then 0 else retract_before_wipe_percent a)"
  "retract_after_wipe_percent (clamp_percents tol a) =
     (if less_than tol (retract_after_wipe_percent a) 0 then 0 else retract_after_wipe_percent a)"
  by (simp_all add: clamp_percents_def Let_def)

lemma clamp_percents_lower:
  assumes "0 < tol"
  shows "- tol < retract_before_wipe_percent (clamp_percents tol a)"
    and "- tol < retract_after_wipe_percent (clamp_percents tol a)"
  using assms by (auto simp: clamp_percents_fields less_than_def is_equal_def)

lemma rounded_nonneg:
  fixes fl :: "real \<Rightarrow> real"
  assumes r: "\<forall>x. \<bar>fl x - x\<bar> \<le> eps * \<bar>x\<bar>" and x: "0 \<le> x"
  shows "(1 - eps) * x \<le> fl x" and "fl x \<le> (1 + eps) * x"
proof -
  from r have "\<bar>fl x - x\<bar> \<le> eps * \<bar>x\<bar>" by blast
  with x have "\<bar>fl x - x\<bar> \<le> eps * x" by simp
  then show "(1 - eps) * x \<le> fl x" and "fl x \<le> (1 + eps) * x"
    by (simp_all add: algebra_simps abs_le_iff)
qed

lemma rounded_nonpos:
  fixes fl :: "real \<Rightarrow> real"
  assumes r: "\<forall>x. \<bar>fl x - x\<bar> \<le> eps * \<bar>x\<bar>" and x: "x \<le> 0"
  shows "(1 + eps) * x \<le> fl x" and "fl x \<le> (1 - eps) * x"
proof -
  from r have "\<bar>fl x - x\<bar> \<le> eps * \<bar>x\<bar>" by blast
  with x have "\<bar>fl x - x\<bar> \<le> eps * (- x)" by simp
  then show "(1 + eps) * x \<le> fl x" and "fl x \<le> (1 - eps) * x"
    by (simp_all add: algebra_simps abs_le_iff)
qed

text \<open>The rounded quotient 1 / t for t at least 1 + tol.\<close>

lemma rounded_ratio:
  fixes fl :: "real \<Rightarrow> real"
  assumes r: "\<forall>x. \<bar>fl x - x\<bar> \<le> eps * \<bar>x\<bar>"
    and eps: "0 \<le> eps" "eps \<le> 1 / 8" "3 * eps \<le> tol"
    and t: "1 + tol \<le> t"
  shows "(1 - eps) / t \<le> fl (1 / t)" and "fl (1 / t) \<le> (1 + eps) / t"
    and "0 \<le> fl (1 / t)" and "fl (1 / t) \<le> 1"
    and "fl (1 / t) * (1 + tol) \<le> 1 + eps"
proof -
  from eps t have tpos: "0 < t" by linarith
  then have q: "0 \<le> 1 / t" by simp
  from rounded_nonneg[OF r q] show lo: "(1 - eps) / t \<le> fl (1 / t)"
    and hi: "fl (1 / t) \<le> (1 + eps) / t" by simp_all
  from eps tpos have "0 \<le> (1 - eps) / t" by simp
  with lo show "0 \<le> fl (1 / t)" by linarith
  from eps t have "1 + eps \<le> t" by linarith
  with tpos have "(1 + eps) / t \<le> 1" by simp
  with hi show "fl (1 / t) \<le> 1" by linarith
  from eps have e1: "0 \<le> 1 + eps" by linarith
  from t tpos eps have "(1 + tol) / t \<le> 1" by simp
  then have "(1 + eps) * ((1 + tol) / t) \<le> (1 + eps) * 1"
    using e1 by (rule mult_left_mono)
  then have "(1 + eps) / t * (1 + tol) \<le> 1 + eps" by simp
  moreover from hi eps t have "fl (1 / t) * (1 + tol) \<le> (1 + eps) / t * (1 + tol)"
    by (intro mult_right_mono) linarith+
  ultimately show "fl (1 / t) * (1 + tol) \<le> 1 + eps" by linarith
qed

text \<open>A percentage above minus the tolerance stays so when it is scaled down and rounded.\<close>

lemma rounded_scaled_lower:
  fixes fl :: "real \<Rightarrow> real"
  assumes r: "\<forall>x. \<bar>fl x - x\<bar> \<le> eps * \<bar>x\<bar>"
    and eps: "0 \<le> eps" "eps \<le> 1 / 8" "3 * eps \<le> tol"
    and tol: "0 < tol"
    and t: "1 + tol \<le> t"
    and c: "- tol < c"
  shows "- tol < fl (fl (1 / t) * c)"
proof (cases "0 \<le> c")
  case True
  with rounded_ratio(3)[OF r eps t] have "0 \<le> fl (1 / t) * c" by simp
  moreover from eps have "0 \<le> 1 - eps" by linarith
  ultimately have "0 \<le> (1 - eps) * (fl (1 / t) * c)" by (rule mult_nonneg_nonneg[rotated])
  with rounded_nonneg(1)[OF r \<open>0 \<le> fl (1 / t) * c\<close>] have "0 \<le> fl (fl (1 / t) * c)"
    by linarith
  with tol show ?thesis by linarith
next
  case False
  then have neg: "c < 0" by simp
  let ?r = "fl (1 / t)"
  note rr = rounded_ratio[OF r eps t]
  from neg rr(3) have le0: "?r * c \<le> 0" by (simp add: mult_nonneg_nonpos)
  from rounded_nonpos(1)[OF r le0] have 1: "(1 + eps) * (?r * c) \<le> fl (?r * c)" .
  have "(1 + eps) * (?r * c) * (1 + tol) = (1 + eps) * (?r * (1 + tol)) * c" by simp
  also have "\<dots> \<ge> (1 + eps) * (1 + eps) * c"
  proof -
    from eps rr(5) have "(1 + eps) * (?r * (1 + tol)) \<le> (1 + eps) * (1 + eps)"
      by (intro mult_left_mono) linarith+
    with neg show ?thesis by (simp add: mult_right_mono_neg)
  qed
  finally have 2: "(1 + eps) * (1 + eps) * c \<le> (1 + eps) * (?r * c) * (1 + tol)" .
  have "(1 + eps) * (1 + eps) \<le> 1 + tol"
  proof -
    from eps have "eps * eps \<le> eps * 1" by (intro mult_left_mono) linarith+
    then have "(1 + eps) * (1 + eps) \<le> 1 + 3 * eps" by (simp add: algebra_simps)
    with eps show ?thesis by linarith
  qed
  with neg have "(1 + tol) * c \<le> (1 + eps) * (1 + eps) * c"
    by (simp add: mult_right_mono_neg)
  with 2 have "c * (1 + tol) \<le> (1 + eps) * (?r * c) * (1 + tol)"
    by (simp add: mult.commute)
  moreover from tol have "0 < 1 + tol" by linarith
  ultimately have "c \<le> (1 + eps) * (?r * c)"
    by (rule mult_right_le_imp_le)
  with 1 c show ?thesis by linarith
qed


lemma abs_above_minus:
  fixes c tol :: real
  assumes "0 < tol" "- tol < c"
  shows "\<bar>c\<bar> \<le> c + 2 * tol"
  using assms by (simp add: abs_le_iff)

text \<open>The sum of the two scaled and rounded percentages is 1 up to the rounding.\<close>

lemma rounded_scaled_sum:
  fixes fl :: "real \<Rightarrow> real"
  assumes r: "\<forall>x. \<bar>fl x - x\<bar> \<le> eps * \<bar>x\<bar>"
    and eps: "0 \<le> eps" "eps \<le> 1 / 8" "3 * eps \<le> tol"
    and tol: "0 < tol"
    and t: "1 + tol \<le> fl (cb + ca)"
    and cb: "- tol < cb" and ca: "- tol < ca"
  shows "\<bar>fl (fl (1 / fl (cb + ca)) * cb) + fl (fl (1 / fl (cb + ca)) * ca) - 1\<bar>
         \<le> 4 * eps * (1 + tol)"
proof -
  define s where "s = cb + ca"
  define t where "t = fl s"
  define q where "q = fl (1 / t)"
  define p where "p = q * s"
  from t have t1: "1 + tol \<le> t" by (simp add: t_def s_def)
  with tol have tpos: "0 < t" by linarith
  note rr = rounded_ratio[OF r eps t1, folded q_def]
  have spos: "0 < s"
  proof (rule ccontr)
    assume "\<not> 0 < s"
    then have "s \<le> 0" by simp
    from rounded_nonpos(2)[OF r this] have "t \<le> (1 - eps) * s" by (simp add: t_def)
    moreover from eps \<open>s \<le> 0\<close> have "(1 - eps) * s \<le> 0"
      by (intro mult_nonneg_nonpos) linarith+
    ultimately show False using tpos by linarith
  qed
  then have s0: "0 \<le> s" by simp
  from rounded_nonneg[OF r s0] have ts: "(1 - eps) * s \<le> t" "t \<le> (1 + eps) * s"
    by (simp_all add: t_def)
  \<comment> \<open>the product of the rounded quotient and the exact sum\<close>
  have p_hi: "p \<le> 1 + 5 / 2 * eps"
  proof -
    from rr(2) s0 have "p \<le> (1 + eps) / t * s" unfolding p_def by (rule mult_right_mono)
    then have "p * t \<le> (1 + eps) * s" using tpos by (simp add: field_simps)
    moreover have "(1 + eps) * s * (1 - eps) \<le> (1 + eps) * t"
    proof -
      from eps have "0 \<le> 1 + eps" by linarith
      from mult_left_mono[OF ts(1) this] show ?thesis by (simp add: mult.commute mult.left_commute)
    qed
    moreover from eps have e: "0 < 1 - eps" by linarith
    ultimately have "p * t * (1 - eps) \<le> (1 + eps) * t"
      by (meson mult_right_mono less_imp_le order_trans)
    then have "p * (1 - eps) * t \<le> (1 + eps) * t" by (simp add: mult.commute mult.left_commute)
    from this tpos have 1: "p * (1 - eps) \<le> 1 + eps" by (rule mult_right_le_imp_le)
    have "1 + eps \<le> (1 + 5 / 2 * eps) * (1 - eps)"
    proof -
      from eps have "eps * eps \<le> eps * (1 / 8)" by (intro mult_left_mono) linarith+
      with eps have "eps * (eps * 5) \<le> eps" by simp
      then show ?thesis by (simp add: algebra_simps)
    qed
    with 1 have "p * (1 - eps) \<le> (1 + 5 / 2 * eps) * (1 - eps)" by linarith
    from this e show ?thesis by (rule mult_right_le_imp_le)
  qed
  have p_lo: "1 - 2 * eps \<le> p"
  proof -
    from rr(1) s0 have "(1 - eps) / t * s \<le> p" unfolding p_def by (rule mult_right_mono)
    then have "(1 - eps) * s \<le> p * t" using tpos by (simp add: field_simps)
    moreover from rr(3) s0 have p0: "0 \<le> p" unfolding p_def by (rule mult_nonneg_nonneg)
    from mult_left_mono[OF ts(2) p0] have "p * t \<le> p * (1 + eps) * s" by (simp add: mult.assoc)
    ultimately have "(1 - eps) * s \<le> p * (1 + eps) * s" by linarith
    from this spos have 1: "1 - eps \<le> p * (1 + eps)" by (rule mult_right_le_imp_le)
    have "(1 - 2 * eps) * (1 + eps) \<le> 1 - eps"
    proof -
      have "0 \<le> eps * eps" by simp
      then show ?thesis by (simp add: algebra_simps)
    qed
    with 1 have "(1 - 2 * eps) * (1 + eps) \<le> p * (1 + eps)" by linarith
    moreover from eps have "0 < 1 + eps" by linarith
    ultimately show ?thesis by (rule mult_right_le_imp_le)
  qed
  \<comment> \<open>the rounding of the two products\<close>
  have absq: "\<bar>q * cb\<bar> = q * \<bar>cb\<bar>" "\<bar>q * ca\<bar> = q * \<bar>ca\<bar>"
    using rr(3) by (simp_all add: abs_mult)
  from r have "\<bar>fl (q * cb) - q * cb\<bar> \<le> eps * \<bar>q * cb\<bar>"
    and "\<bar>fl (q * ca) - q * ca\<bar> \<le> eps * \<bar>q * ca\<bar>" by blast+
  then have db: "\<bar>fl (q * cb) - q * cb\<bar> \<le> eps * (q * \<bar>cb\<bar>)"
    and da: "\<bar>fl (q * ca) - q * ca\<bar> \<le> eps * (q * \<bar>ca\<bar>)"
    by (simp_all only: absq)
  have "q * \<bar>cb\<bar> + q * \<bar>ca\<bar> \<le> q * (s + 4 * tol)"
  proof -
    from abs_above_minus[OF tol cb] abs_above_minus[OF tol ca]
    have "\<bar>cb\<bar> + \<bar>ca\<bar> \<le> s + 4 * tol" by (simp add: s_def)
    from mult_left_mono[OF this rr(3)] show ?thesis by (simp add: algebra_simps)
  qed
  also have "\<dots> = p + 4 * tol * q" by (simp add: p_def algebra_simps)
  also have "\<dots> \<le> p + 4 * tol"
  proof -
    from tol have "0 \<le> 4 * tol" by simp
    from mult_left_mono[OF rr(4) this] show ?thesis by simp
  qed
  also have "\<dots> \<le> 3 / 2 + 4 * tol" using p_hi eps by linarith
  finally have w: "q * \<bar>cb\<bar> + q * \<bar>ca\<bar> \<le> 3 / 2 + 4 * tol" .
  from mult_left_mono[OF w eps(1)]
  have "eps * (q * \<bar>cb\<bar>) + eps * (q * \<bar>ca\<bar>) \<le> eps * (3 / 2 + 4 * tol)"
    by (simp add: algebra_simps)
  with db da have "\<bar>fl (q * cb) - q * cb\<bar> + \<bar>fl (q * ca) - q * ca\<bar> \<le> eps * (3 / 2 + 4 * tol)"
    by linarith
  moreover have "fl (q * cb) + fl (q * ca) - 1
      = (fl (q * cb) - q * cb) + (fl (q * ca) - q * ca) + (p - 1)"
    by (simp add: p_def s_def algebra_simps)
  ultimately have "\<bar>fl (q * cb) + fl (q * ca) - 1\<bar> \<le> eps * (3 / 2 + 4 * tol) + 5 / 2 * eps"
    using p_hi p_lo eps by (simp add: abs_le_iff) linarith
  then have "\<bar>fl (q * cb) + fl (q * ca) - 1\<bar> \<le> 4 * eps * (1 + tol)"
    by (simp add: algebra_simps)
  then show ?thesis by (simp add: q_def t_def s_def)
qed

text \<open>The ratio of the two percentages is kept up to the rounding.\<close>

lemma rounded_scaled_ratio:
  fixes fl :: "real \<Rightarrow> real"
  assumes r: "\<forall>x. \<bar>fl x - x\<bar> \<le> eps * \<bar>x\<bar>"
    and eps: "0 \<le> eps" "eps \<le> 1 / 8" "3 * eps \<le> tol"
    and t: "1 + tol \<le> t"
  shows "\<bar>fl (fl (1 / t) * cb) * ca - fl (fl (1 / t) * ca) * cb\<bar> \<le> 2 * eps * \<bar>cb * ca\<bar>"
proof -
  define q where "q = fl (1 / t)"
  note rr = rounded_ratio[OF r eps t, folded q_def]
  have q1: "eps * (q * \<bar>cb * ca\<bar>) \<le> eps * \<bar>cb * ca\<bar>"
  proof -
    have "q * \<bar>cb * ca\<bar> \<le> 1 * \<bar>cb * ca\<bar>" using rr(4) by (intro mult_right_mono) simp_all
    from mult_left_mono[OF this eps(1)] show ?thesis by simp
  qed
  have "\<bar>fl (q * cb) - q * cb\<bar> \<le> eps * \<bar>q * cb\<bar>" using r by blast
  then have "\<bar>fl (q * cb) - q * cb\<bar> * \<bar>ca\<bar> \<le> eps * \<bar>q * cb\<bar> * \<bar>ca\<bar>"
    by (intro mult_right_mono) simp_all
  then have b: "\<bar>(fl (q * cb) - q * cb) * ca\<bar> \<le> eps * (q * \<bar>cb * ca\<bar>)"
    using rr(3) by (simp add: abs_mult mult.assoc)
  have "\<bar>fl (q * ca) - q * ca\<bar> \<le> eps * \<bar>q * ca\<bar>" using r by blast
  then have "\<bar>fl (q * ca) - q * ca\<bar> * \<bar>cb\<bar> \<le> eps * \<bar>q * ca\<bar> * \<bar>cb\<bar>"
    by (intro mult_right_mono) simp_all
  then have a: "\<bar>(fl (q * ca) - q * ca) * cb\<bar> \<le> eps * (q * \<bar>cb * ca\<bar>)"
    using rr(3) by (simp add: abs_mult mult.assoc mult.commute mult.left_commute)
  have "fl (q * cb) * ca - fl (q * ca) * cb
      = (fl (q * cb) - q * cb) * ca - (fl (q * ca) - q * ca) * cb"
    by (simp add: algebra_simps)
  then have "\<bar>fl (q * cb) * ca - fl (q * ca) * cb\<bar>
      \<le> \<bar>(fl (q * cb) - q * cb) * ca\<bar> + \<bar>(fl (q * ca) - q * ca) * cb\<bar>"
    by (simp only: abs_triangle_ineq4)
  with a b q1 have "\<bar>fl (q * cb) * ca - fl (q * ca) * cb\<bar> \<le> 2 * eps * \<bar>cb * ca\<bar>"
    by linarith
  then show ?thesis by (simp add: q_def)
qed

lemma normalize_percents_rounded_result:
  "normalize_percents_rounded fl tol a =
     (if greater_than tol (fl (retract_before_wipe_percent (clamp_percents tol a)
                               + retract_after_wipe_percent (clamp_percents tol a))) 1
         \<and> \<not> is_zero tol (fl (retract_before_wipe_percent (clamp_percents tol a)
                               + retract_after_wipe_percent (clamp_percents tol a)))
      then (clamp_percents tol a)
             \<lparr>retract_before_wipe_percent :=
                fl (fl (1 / fl (retract_before_wipe_percent (clamp_percents tol a)
                                + retract_after_wipe_percent (clamp_percents tol a)))
                    * retract_before_wipe_percent (clamp_percents tol a)),
              retract_after_wipe_percent :=
                fl (fl (1 / fl (retract_before_wipe_percent (clamp_percents tol a)
                                + retract_after_wipe_percent (clamp_percents tol a)))
                    * retract_after_wipe_percent (clamp_percents tol a))\<rparr>
      else clamp_percents tol a)"
  by (simp add: normalize_percents_rounded_def Let_def)

lemma greater_than_one:
  assumes "0 < tol" "greater_than tol t 1"
  shows "1 + tol \<le> t" and "\<not> is_zero tol t"
  using assms by (auto simp: greater_than_def is_equal_def is_zero_def)

lemma normalize_percents_rounded_lower:
  fixes fl :: "real \<Rightarrow> real"
  assumes r: "\<forall>x. \<bar>fl x - x\<bar> \<le> eps * \<bar>x\<bar>"
    and eps: "0 \<le> eps" "eps \<le> 1 / 8" "3 * eps \<le> tol"
    and tol: "0 < tol"
  shows "- tol < retract_before_wipe_percent (normalize_percents_rounded fl tol a)"
    and "- tol < retract_after_wipe_percent (normalize_percents_rounded fl tol a)"
proof -
  let ?c = "clamp_percents tol a"
  let ?t = "fl (retract_before_wipe_percent ?c + retract_after_wipe_percent ?c)"
  note lower = clamp_percents_lower[OF tol, of a]
  show "- tol < retract_before_wipe_percent (normalize_percents_rounded fl tol a)"
  proof (cases "greater_than tol ?t 1")
    case True
    from rounded_scaled_lower[OF r eps tol greater_than_one(1)[OF tol True] lower(1)]
      True greater_than_one(2)[OF tol True]
    show ?thesis unfolding normalize_percents_rounded_result by simp
  next
    case False
    with lower(1) show ?thesis unfolding normalize_percents_rounded_result by simp
  qed
  show "- tol < retract_after_wipe_percent (normalize_percents_rounded fl tol a)"
  proof (cases "greater_than tol ?t 1")
    case True
    from rounded_scaled_lower[OF r eps tol greater_than_one(1)[OF tol True] lower(2)]
      True greater_than_one(2)[OF tol True]
    show ?thesis unfolding normalize_percents_rounded_result by simp
  next
    case False
    with lower(2) show ?thesis unfolding normalize_percents_rounded_result by simp
  qed
qed

lemma normalize_percents_rounded_scaled:
  fixes fl :: "real \<Rightarrow> real"
  assumes r: "\<forall>x. \<bar>fl x - x\<bar> \<le> eps * \<bar>x\<bar>"
    and eps: "0 \<le> eps" "eps \<le> 1 / 8" "3 * eps \<le> tol"
    and tol: "0 < tol"
    and gt: "greater_than tol (fl (retract_before_wipe_percent (clamp_percents tol a)
                                   + retract_after_wipe_percent (clamp_percents tol a))) 1"
  shows "retract_before_wipe_percent (normalize_percents_rounded fl tol a)
         = fl (fl (1 / fl (retract_before_wipe_percent (clamp_percents tol a)
                           + retract_after_wipe_percent (clamp_percents tol a)))
               * retract_before_wipe_percent (clamp_percents tol a))"
    and "retract_after_wipe_percent (normalize_percents_rounded fl tol a)
         = fl (fl (1 / fl (retract_before_wipe_percent (clamp_percents tol a)
                           + retract_after_wipe_percent (clamp_percents tol a)))
               * retract_after_wipe_percent (clamp_percents tol a))"
    and "\<bar>retract_before_wipe_percent (normalize_percents_rounded fl tol a)
          + retract_after_wipe_percent (normalize_percents_rounded fl tol a) - 1\<bar>
         \<le> 4 * eps * (1 + tol)"
    and "\<bar>retract_before_wipe_percent (normalize_percents_rounded fl tol a)
            * retract_after_wipe_percent (clamp_percents tol a)
          - retract_after_wipe_percent (normalize_percents_rounded fl tol a)
            * retract_before_wipe_percent (clamp_percents tol a)\<bar>
         \<le> 2 * eps * \<bar>retract_before_wipe_percent (clamp_percents tol a)
                        * retract_after_wipe_percent (clamp_percents tol a)\<bar>"
proof -
  let ?c = "clamp_percents tol a"
  let ?cb = "retract_before_wipe_percent ?c"
  let ?ca = "retract_after_wipe_percent ?c"
  note t = greater_than_one[OF tol gt]
  note lower = clamp_percents_lower[OF tol, of a]
  from gt t(2) show b: "retract_before_wipe_percent (normalize_percents_rounded fl tol a)
         = fl (fl (1 / fl (?cb + ?ca)) * ?cb)"
    and a: "retract_after_wipe_percent (normalize_percents_rounded fl tol a)
         = fl (fl (1 / fl (?cb + ?ca)) * ?ca)"
    unfolding normalize_percents_rounded_result by simp_all
  from rounded_scaled_sum[OF r eps tol t(1) lower]
  show "\<bar>retract_before_wipe_percent (normalize_percents_rounded fl tol a)
          + retract_after_wipe_percent (normalize_percents_rounded fl tol a) - 1\<bar>
         \<le> 4 * eps * (1 + tol)"
    by (simp only: a b)
  from rounded_scaled_ratio[OF r eps t(1), of ?cb ?ca]
  show "\<bar>retract_before_wipe_percent (normalize_percents_rounded fl tol a) * ?ca
          - retract_after_wipe_percent (normalize_percents_rounded fl tol a) * ?cb\<bar>
         \<le> 2 * eps * \<bar>?cb * ?ca\<bar>"
    by (simp only: a b)
qed

lemma initialize_rounded_settings:
  "settings (initialize_rounded fl tol w) = normalize_percents_rounded fl tol (settings w)"
  "is_initialized (initialize_rounded fl tol w)"
  by (simp_all add: initialize_rounded_def Let_def)

text \<open>
  The rounding of the doubles has a relative error of at most \<open>2^-53\<close>: the nearest
  integer is within a half, and the distance \<open>ulp x\<close> of the doubles around \<open>x\<close> is
  at most \<open>\<bar>x\<bar> / 2 ^ 52\<close>.
\<close>

lemma nearest_even_error: "\<bar>of_int (nearest_even y) - y\<bar> \<le> 1 / 2"
proof -
  have "of_int \<lfloor>y\<rfloor> \<le> y" "y < of_int \<lfloor>y\<rfloor> + 1" by linarith+
  then show ?thesis by (auto simp: nearest_even_def Let_def abs_le_iff)
qed

lemma ulp_pos: "0 < ulp x"
  by (simp add: ulp_def)

lemma ulp_le:
  assumes "x \<noteq> 0"
  shows "2 ^ 52 * ulp x \<le> \<bar>x\<bar>"
proof -
  from assms have pos: "0 < \<bar>x\<bar>" by simp
  have "of_int \<lfloor>log 2 \<bar>x\<bar>\<rfloor> \<le> log 2 \<bar>x\<bar>" by simp
  then have "2 powr (of_int \<lfloor>log 2 \<bar>x\<bar>\<rfloor>) \<le> 2 powr (log 2 \<bar>x\<bar>)"
    by (simp only: powr_le_cancel_iff)
  also from pos have "2 powr (log 2 \<bar>x\<bar>) = \<bar>x\<bar>" by simp
  finally have "2 powr (of_int \<lfloor>log 2 \<bar>x\<bar>\<rfloor>) \<le> \<bar>x\<bar>" .
  moreover have "2 ^ 52 * ulp x = 2 powr (of_int \<lfloor>log 2 \<bar>x\<bar>\<rfloor>)"
  proof -
    have "(2 :: real) ^ 52 = 2 powr 52" by (simp add: powr_realpow[symmetric])
    then have "2 ^ 52 * ulp x = 2 powr 52 * 2 powr (of_int \<lfloor>log 2 \<bar>x\<bar>\<rfloor> - 52)"
      by (simp only: ulp_def)
    also have "\<dots> = 2 powr (52 + (of_int \<lfloor>log 2 \<bar>x\<bar>\<rfloor> - 52))"
      by (simp only: powr_add)
    finally show ?thesis by simp
  qed
  ultimately show ?thesis by simp
qed

lemma round_double_error: "\<bar>round_double x - x\<bar> \<le> 1 / 2 ^ 53 * \<bar>x\<bar>"
proof (cases "x = 0")
  case True
  then show ?thesis by (simp add: round_double_def)
next
  case False
  let ?u = "ulp x"
  have u: "0 < ?u" by (rule ulp_pos)
  have "round_double x - x = (of_int (nearest_even (x / ?u)) - x / ?u) * ?u"
    using False u by (simp add: round_double_def field_simps)
  then have "\<bar>round_double x - x\<bar> = \<bar>of_int (nearest_even (x / ?u)) - x / ?u\<bar> * ?u"
    using u by (simp add: abs_mult)
  also have "\<dots> \<le> 1 / 2 * ?u"
    using nearest_even_error[of "x / ?u"] u by (intro mult_right_mono) simp_all
  also have "\<dots> \<le> 1 / 2 ^ 53 * \<bar>x\<bar>"
    using ulp_le[OF False] by simp
  finally show ?thesis .
qed

text \<open>The distance of the doubles around a number below \<open>2 ^ 53\<close>, and some roundings.\<close>

lemma ulp_value:
  fixes n :: nat
  assumes lo: "2 ^ 52 / 2 ^ n \<le> \<bar>x\<bar>" and hi: "\<bar>x\<bar> < 2 ^ 53 / 2 ^ n"
  shows "ulp x = 1 / 2 ^ n"
proof -
  have p: "(2 :: real) ^ 52 / 2 ^ n = 2 powr (52 - real n)"
    "(2 :: real) ^ 53 / 2 ^ n = 2 powr (52 - real n + 1)"
    by (simp_all add: powr_diff powr_add powr_realpow)
  have "0 < (2 :: real) ^ 52 / 2 ^ n" by simp
  with lo have pos: "0 < \<bar>x\<bar>" by linarith
  from lo p(1) pos have "52 - real n \<le> log 2 \<bar>x\<bar>"
    by (simp add: le_log_iff)
  moreover from hi p(2) pos have "log 2 \<bar>x\<bar> < 52 - real n + 1"
    by (simp add: log_less_iff)
  ultimately have "\<lfloor>log 2 \<bar>x\<bar>\<rfloor> = 52 - int n"
    by (intro floor_unique) simp_all
  then have "ulp x = 2 powr (- real n)" by (simp add: ulp_def)
  also have "\<dots> = 1 / 2 ^ n" by (simp add: powr_minus_divide powr_realpow)
  finally show ?thesis .
qed

lemma ulp_values:
  "ulp (9 / 8) = 1 / 4503599627370496"
  "ulp (8 / 9) = 1 / 9007199254740992"
  "ulp (2001599834386887 / 9007199254740992) = 1 / 36028797018963968"
  "ulp (14011198840708209 / 18014398509481984) = 1 / 9007199254740992"
  "ulp (2001599834386887 / 4503599627370496) = 1 / 18014398509481984"
  "ulp (875699927544263 / 562949953421312) = 1 / 4503599627370496"
  "ulp (7005599420354105 / 4503599627370496) = 1 / 4503599627370496"
  "ulp (1 / 4503599627370496) = 1 / 20282409603651670423947251286016"
  "ulp 2 = 1 / 2251799813685248"
  "ulp (1 / 2251799813685248) = 1 / 10141204801825835211973625643008"
  "ulp (1 / 2) = 1 / 9007199254740992"
  using ulp_value[of 52 "9 / 8"] ulp_value[of 53 "8 / 9"]
    ulp_value[of 55 "2001599834386887 / 9007199254740992"]
    ulp_value[of 53 "14011198840708209 / 18014398509481984"]
    ulp_value[of 54 "2001599834386887 / 4503599627370496"]
    ulp_value[of 52 "875699927544263 / 562949953421312"]
    ulp_value[of 52 "7005599420354105 / 4503599627370496"]
    ulp_value[of 104 "1 / 4503599627370496"]
    ulp_value[of 51 2]
    ulp_value[of 103 "1 / 2251799813685248"]
    ulp_value[of 53 "1 / 2"]
  by simp_all

lemma round_double_values:
  "round_double (9 / 8) = 9 / 8"
  "round_double (8 / 9) = 2001599834386887 / 2251799813685248"
  "round_double (2001599834386887 / 9007199254740992) = 2001599834386887 / 9007199254740992"
  "round_double (14011198840708209 / 18014398509481984) = 875699927544263 / 1125899906842624"
  "round_double (2001599834386887 / 4503599627370496) = 2001599834386887 / 4503599627370496"
  "round_double (875699927544263 / 562949953421312) = 875699927544263 / 562949953421312"
  "round_double (7005599420354105 / 4503599627370496) = 7005599420354105 / 4503599627370496"
  "round_double (1 / 4503599627370496) = 1 / 4503599627370496"
  "round_double 2 = 2"
  "round_double (1 / 2251799813685248) = 1 / 2251799813685248"
  "round_double (1 / 2) = 1 / 2"
  by (simp_all add: round_double_def nearest_even_def Let_def ulp_values)

text \<open>
  Claim C3, as the code has it. \<open>initialize\<close> returns for every settings input, and
  the wiper it leaves is initialized. Let every result of an operation be rounded
  with a relative error of at most \<open>eps\<close>, which is at most 1 / 8 and at most a third of
  the tolerance (for the rounding of the doubles \<open>eps\<close> is \<open>2^-53\<close>; in exact arithmetic
  it is 0). Then both percentages are greater than minus the tolerance afterwards: a
  negative input is only set to 0 when it is \<open>less_than\<close> 0, that is at or below minus
  the tolerance. And whenever the sum of the clamped percentages is \<open>greater_than\<close> 1,
  each percentage is the clamped one times the quotient \<open>1 / sum\<close>: the two add up to 1
  within \<open>4 * eps * (1 + tol)\<close>, and they are in the ratio of the clamped percentages
  within \<open>2 * eps\<close> times the product of these. In exact arithmetic the sum is 1 and the
  ratio is kept.
\<close>

theorem initialize_percents:
  fixes fl :: "real \<Rightarrow> real"
  assumes "0 < tol" and "0 \<le> eps" and "eps \<le> 1 / 8" and "3 * eps \<le> tol"
    and "\<forall>x. \<bar>fl x - x\<bar> \<le> eps * \<bar>x\<bar>"
  shows "is_initialized (initialize_rounded fl tol w)
       \<and> - tol < retract_before_wipe_percent (settings (initialize_rounded fl tol w))
       \<and> - tol < retract_after_wipe_percent (settings (initialize_rounded fl tol w))
       \<and> (greater_than tol
             (fl (retract_before_wipe_percent (clamp_percents tol (settings w))
                  + retract_after_wipe_percent (clamp_percents tol (settings w)))) 1 \<longrightarrow>
            retract_before_wipe_percent (settings (initialize_rounded fl tol w))
              = fl (fl (1 / fl (retract_before_wipe_percent (clamp_percents tol (settings w))
                                + retract_after_wipe_percent (clamp_percents tol (settings w))))
                    * retract_before_wipe_percent (clamp_percents tol (settings w)))
            \<and> retract_after_wipe_percent (settings (initialize_rounded fl tol w))
              = fl (fl (1 / fl (retract_before_wipe_percent (clamp_percents tol (settings w))
                                + retract_after_wipe_percent (clamp_percents tol (settings w))))
                    * retract_after_wipe_percent (clamp_percents tol (settings w)))
            \<and> \<bar>retract_before_wipe_percent (settings (initialize_rounded fl tol w))
                + retract_after_wipe_percent (settings (initialize_rounded fl tol w)) - 1\<bar>
                \<le> 4 * eps * (1 + tol)
            \<and> \<bar>retract_before_wipe_percent (settings (initialize_rounded fl tol w))
                  * retract_after_wipe_percent (clamp_percents tol (settings w))
                - retract_after_wipe_percent (settings (initialize_rounded fl tol w))
                  * retract_before_wipe_percent (clamp_percents tol (settings w))\<bar>
                \<le> 2 * eps * \<bar>retract_before_wipe_percent (clamp_percents tol (settings w))
                               * retract_after_wipe_percent (clamp_percents tol (settings w))\<bar>)"
  unfolding initialize_rounded_settings(1)
  using initialize_rounded_settings(2)[of fl tol w]
    normalize_percents_rounded_lower[OF assms(5,2,3,4,1), of "settings w"]
    normalize_percents_rounded_scaled[OF assms(5,2,3,4,1), of "settings w"]
  by blast

text \<open>
  The witness. In exact arithmetic 50% before and 150% after the wipe become 25% and
  75%, which add up to 1 and are in the ratio 1 to 3. With the rounding of the doubles
  (\<open>eps = 2^-53\<close>) 25% and 87.5% become the doubles nearest to 2/9 and 7/9, which add up
  to \<open>1 - 2^-53\<close>.
\<close>

theorem initialize_percents_witness:
  "0 < demo_tol \<and> 3 * (1 / 2 ^ 53) \<le> demo_tol
   \<and> is_initialized
        (initialize demo_tol
           (blank_wiper\<lparr>settings :=
              demo_args\<lparr>retract_before_wipe_percent := 1 / 2,
                        retract_after_wipe_percent := 3 / 2\<rparr>\<rparr>))
   \<and> greater_than demo_tol
        (retract_before_wipe_percent (clamp_percents demo_tol
          (demo_args\<lparr>retract_before_wipe_percent := 1 / 2, retract_after_wipe_percent := 3 / 2\<rparr>))
        + retract_after_wipe_percent (clamp_percents demo_tol
          (demo_args\<lparr>retract_before_wipe_percent := 1 / 2, retract_after_wipe_percent := 3 / 2\<rparr>)))
        1
   \<and> settings
        (initialize demo_tol
           (blank_wiper\<lparr>settings :=
              demo_args\<lparr>retract_before_wipe_percent := 1 / 2,
                        retract_after_wipe_percent := 3 / 2\<rparr>\<rparr>))
       = demo_args\<lparr>retract_before_wipe_percent := 1 / 4, retract_after_wipe_percent := 3 / 4\<rparr>
   \<and> (1 / 4 :: real) = 1 / (1 / 2 + 3 / 2) * (1 / 2)
   \<and> (3 / 4 :: real) = 1 / (1 / 2 + 3 / 2) * (3 / 2)
   \<and> \<bar>(1 / 4 :: real) + 3 / 4 - 1\<bar> \<le> 4 * 0 * (1 + demo_tol)
   \<and> \<bar>(1 / 4 :: real) * (3 / 2) - 3 / 4 * (1 / 2)\<bar> \<le> 2 * 0 * \<bar>(1 / 2 :: real) * (3 / 2)\<bar>
   \<and> is_initialized
        (initialize_rounded round_double demo_tol
           (blank_wiper\<lparr>settings :=
              demo_args\<lparr>retract_before_wipe_percent := 1 / 4,
                        retract_after_wipe_percent := 7 / 8\<rparr>\<rparr>))
   \<and> greater_than demo_tol
        (round_double
          (retract_before_wipe_percent (clamp_percents demo_tol
            (demo_args\<lparr>retract_before_wipe_percent := 1 / 4, retract_after_wipe_percent := 7 / 8\<rparr>))
          + retract_after_wipe_percent (clamp_percents demo_tol
            (demo_args\<lparr>retract_before_wipe_percent := 1 / 4, retract_after_wipe_percent := 7 / 8\<rparr>))))
        1
   \<and> settings
        (initialize_rounded round_double demo_tol
           (blank_wiper\<lparr>settings :=
              demo_args\<lparr>retract_before_wipe_percent := 1 / 4,
                        retract_after_wipe_percent := 7 / 8\<rparr>\<rparr>))
       = demo_args\<lparr>retract_before_wipe_percent := 2001599834386887 / 2 ^ 53,
                   retract_after_wipe_percent := 875699927544263 / 2 ^ 50\<rparr>
   \<and> (2001599834386887 / 2 ^ 53 :: real)
       = round_double (round_double (1 / round_double (1 / 4 + 7 / 8)) * (1 / 4))
   \<and> (875699927544263 / 2 ^ 50 :: real)
       = round_double (round_double (1 / round_double (1 / 4 + 7 / 8)) * (7 / 8))
   \<and> \<bar>(2001599834386887 / 2 ^ 53 :: real) + 875699927544263 / 2 ^ 50 - 1\<bar>
       \<le> 4 * (1 / 2 ^ 53) * (1 + demo_tol)
   \<and> \<bar>(2001599834386887 / 2 ^ 53 :: real) * (7 / 8) - 875699927544263 / 2 ^ 50 * (1 / 4)\<bar>
       \<le> 2 * (1 / 2 ^ 53) * \<bar>(1 / 4 :: real) * (7 / 8)\<bar>"
proof -
  have t: "0 < demo_tol" "3 * (0 :: real) \<le> demo_tol" "3 * (1 / 2 ^ 53) \<le> demo_tol"
    by (simp_all add: demo_tol_def)
  have e: "(0 :: real) \<le> 0" "(0 :: real) \<le> 1 / 8" by simp_all
  have e': "(0 :: real) \<le> 1 / 2 ^ 53" "(1 :: real) / 2 ^ 53 \<le> 1 / 8" by simp_all
  have r: "\<forall>x :: real. \<bar>(\<lambda>x. x) x - x\<bar> \<le> 0 * \<bar>x\<bar>" by simp
  have r': "\<forall>x. \<bar>round_double x - x\<bar> \<le> 1 / 2 ^ 53 * \<bar>x\<bar>"
    by (rule allI) (rule round_double_error)
  have exact:
    "greater_than demo_tol
        (retract_before_wipe_percent (clamp_percents demo_tol
          (demo_args\<lparr>retract_before_wipe_percent := 1 / 2, retract_after_wipe_percent := 3 / 2\<rparr>))
        + retract_after_wipe_percent (clamp_percents demo_tol
          (demo_args\<lparr>retract_before_wipe_percent := 1 / 2, retract_after_wipe_percent := 3 / 2\<rparr>)))
        1
   \<and> settings
        (initialize demo_tol
           (blank_wiper\<lparr>settings :=
              demo_args\<lparr>retract_before_wipe_percent := 1 / 2,
                        retract_after_wipe_percent := 3 / 2\<rparr>\<rparr>))
       = demo_args\<lparr>retract_before_wipe_percent := 1 / 4, retract_after_wipe_percent := 3 / 4\<rparr>
   \<and> (1 / 4 :: real) = 1 / (1 / 2 + 3 / 2) * (1 / 2)
   \<and> (3 / 4 :: real) = 1 / (1 / 2 + 3 / 2) * (3 / 2)
   \<and> \<bar>(1 / 4 :: real) + 3 / 4 - 1\<bar> \<le> 4 * 0 * (1 + demo_tol)
   \<and> \<bar>(1 / 4 :: real) * (3 / 2) - 3 / 4 * (1 / 2)\<bar> \<le> 2 * 0 * \<bar>(1 / 2 :: real) * (3 / 2)\<bar>"
    by (simp add: initialize_defs demo_defs comparison_defs)
  have rounded_settings:
    "settings
        (initialize_rounded round_double demo_tol
           (blank_wiper\<lparr>settings :=
              demo_args\<lparr>retract_before_wipe_percent := 1 / 4,
                        retract_after_wipe_percent := 7 / 8\<rparr>\<rparr>))
       = demo_args\<lparr>retract_before_wipe_percent := 2001599834386887 / 2 ^ 53,
                   retract_after_wipe_percent := 875699927544263 / 2 ^ 50\<rparr>"
    unfolding initialize_rounded_settings(1)
    by (simp add: normalize_percents_rounded_def clamp_percents_def Let_def demo_defs
        comparison_defs round_double_values)
  have rounded:
    "greater_than demo_tol
        (round_double
          (retract_before_wipe_percent (clamp_percents demo_tol
            (demo_args\<lparr>retract_before_wipe_percent := 1 / 4, retract_after_wipe_percent := 7 / 8\<rparr>))
          + retract_after_wipe_percent (clamp_percents demo_tol
            (demo_args\<lparr>retract_before_wipe_percent := 1 / 4, retract_after_wipe_percent := 7 / 8\<rparr>))))
        1
   \<and> settings
        (initialize_rounded round_double demo_tol
           (blank_wiper\<lparr>settings :=
              demo_args\<lparr>retract_before_wipe_percent := 1 / 4,
                        retract_after_wipe_percent := 7 / 8\<rparr>\<rparr>))
       = demo_args\<lparr>retract_before_wipe_percent := 2001599834386887 / 2 ^ 53,
                   retract_after_wipe_percent := 875699927544263 / 2 ^ 50\<rparr>
   \<and> (2001599834386887 / 2 ^ 53 :: real)
       = round_double (round_double (1 / round_double (1 / 4 + 7 / 8)) * (1 / 4))
   \<and> (875699927544263 / 2 ^ 50 :: real)
       = round_double (round_double (1 / round_double (1 / 4 + 7 / 8)) * (7 / 8))
   \<and> \<bar>(2001599834386887 / 2 ^ 53 :: real) + 875699927544263 / 2 ^ 50 - 1\<bar>
       \<le> 4 * (1 / 2 ^ 53) * (1 + demo_tol)
   \<and> \<bar>(2001599834386887 / 2 ^ 53 :: real) * (7 / 8) - 875699927544263 / 2 ^ 50 * (1 / 4)\<bar>
       \<le> 2 * (1 / 2 ^ 53) * \<bar>(1 / 4 :: real) * (7 / 8)\<bar>"
    unfolding rounded_settings
    by (simp add: clamp_percents_def demo_defs comparison_defs round_double_values)
  from initialize_percents[OF t(1) e t(2) r, of "blank_wiper\<lparr>settings :=
      demo_args\<lparr>retract_before_wipe_percent := 1 / 2, retract_after_wipe_percent := 3 / 2\<rparr>\<rparr>"]
    initialize_percents[OF t(1) e' t(3) r', of "blank_wiper\<lparr>settings :=
      demo_args\<lparr>retract_before_wipe_percent := 1 / 4, retract_after_wipe_percent := 7 / 8\<rparr>\<rparr>"]
    t(1) t(3) exact rounded
  show ?thesis unfolding initialize_def by fast
qed

text \<open>
  The claim as it is written fails in its three parts. A percentage of \<open>-1e-9\<close> is
  within the tolerance of 0 and stays negative; the percentages 0.5 and \<open>0.5 + 1e-9\<close>,
  whose sum is greater than 1, are within the tolerance of 1 and stay as they are:
  these are the settings after \<open>initialize\<close>. And the sum after the scaling is not
  exactly 1 in doubles: for the percentages 0.25 and 0.875 the quotient 1 / 1.125 and
  the product with 0.875 are rounded, and the settings after \<open>initialize\<close> add up to
  \<open>1 - 2^-53\<close>.
\<close>

theorem initialize_percents_counterexample:
  "settings
     (initialize demo_tol
        (blank_wiper\<lparr>settings := demo_args\<lparr>retract_before_wipe_percent := - (1 / 1000000000)\<rparr>\<rparr>))
     = demo_args\<lparr>retract_before_wipe_percent := - (1 / 1000000000)\<rparr>
   \<and> retract_before_wipe_percent
        (demo_args\<lparr>retract_before_wipe_percent := - (1 / 1000000000)\<rparr>) < 0
   \<and> settings (initialize demo_tol (blank_wiper\<lparr>settings := surplus_args\<rparr>)) = surplus_args
   \<and> 1 < retract_before_wipe_percent surplus_args + retract_after_wipe_percent surplus_args
   \<and> retract_before_wipe_percent surplus_args + retract_after_wipe_percent surplus_args \<noteq> 1
   \<and> settings
       (initialize_rounded round_double demo_tol
          (blank_wiper\<lparr>settings :=
             demo_args\<lparr>retract_before_wipe_percent := 1 / 4,
                       retract_after_wipe_percent := 7 / 8\<rparr>\<rparr>))
       = demo_args\<lparr>retract_before_wipe_percent := 2001599834386887 / 2 ^ 53,
                   retract_after_wipe_percent := 875699927544263 / 2 ^ 50\<rparr>
   \<and> (2001599834386887 / 2 ^ 53 + 875699927544263 / 2 ^ 50 :: real) = 1 - 1 / 2 ^ 53"
proof -
  have "settings
       (initialize_rounded round_double demo_tol
          (blank_wiper\<lparr>settings :=
             demo_args\<lparr>retract_before_wipe_percent := 1 / 4,
                       retract_after_wipe_percent := 7 / 8\<rparr>\<rparr>))
       = demo_args\<lparr>retract_before_wipe_percent := 2001599834386887 / 2 ^ 53,
                   retract_after_wipe_percent := 875699927544263 / 2 ^ 50\<rparr>"
    unfolding initialize_rounded_settings(1)
    by (simp add: normalize_percents_rounded_def clamp_percents_def Let_def demo_defs
        comparison_defs round_double_values)
  then show ?thesis
    by (simp add: initialize_defs demo_defs comparison_defs)
qed

subsection \<open>The missing retraction\<close>

text \<open>
  In half-wipe mode \<open>get_missing_retraction\<close> returns the shortfall of the total
  distance against the half wipe distance, doubled, times the ratio.
\<close>

theorem get_missing_retraction_half_wipe:
  "\<not> use_full_wipe w \<Longrightarrow>
     get_missing_retraction w
       = times_double (times_double (minus_finite (half_wipe_distance w) (total_distance w))
                         (Finite 2))
           (distance_to_retraction_ratio w)"
  by (simp add: get_missing_retraction_def wipe_distance_to_retraction_double_def)

theorem get_missing_retraction_half_wipe_witness:
  "reachable demo_tol (demo_wiper_moved\<lparr>use_full_wipe := False\<rparr>)
   \<and> \<not> use_full_wipe (demo_wiper_moved\<lparr>use_full_wipe := False\<rparr>)
   \<and> get_missing_retraction (demo_wiper_moved\<lparr>use_full_wipe := False\<rparr>) = Finite (1 / 5)
   \<and> half_wipe_distance (demo_wiper_moved\<lparr>use_full_wipe := False\<rparr>) = Finite (6 / 5)
   \<and> total_distance (demo_wiper_moved\<lparr>use_full_wipe := False\<rparr>) = 1
   \<and> distance_to_retraction_ratio (demo_wiper_moved\<lparr>use_full_wipe := False\<rparr>) = Finite (1 / 2)
   \<and> (6 / 5 - 1 :: real) * 2 * (1 / 2) = 1 / 5"
proof -
  have h: "\<not> use_full_wipe (demo_wiper_moved\<lparr>use_full_wipe := False\<rparr>)" by simp
  have v: "half_wipe_distance (demo_wiper_moved\<lparr>use_full_wipe := False\<rparr>) = Finite (6 / 5)
     \<and> total_distance (demo_wiper_moved\<lparr>use_full_wipe := False\<rparr>) = 1
     \<and> distance_to_retraction_ratio (demo_wiper_moved\<lparr>use_full_wipe := False\<rparr>) = Finite (1 / 2)"
    by (simp add: demo_defs)
  from get_missing_retraction_half_wipe[OF h] v
    reachable.switched[OF demo_wiper_moved_reachable, of False]
  show ?thesis by simp
qed

text \<open>
  Claim C2, at a state where the code departs from it. After the scenario's settings
  and one move of length 1 the wiper is in full-wipe mode with a wipe distance of 2.4
  and a ratio of 0.5: the claim gives a missing retraction of \<open>(2.4 - 1) * 0.5 = 0.7\<close>,
  and the code, which subtracts from \<open>use_full_wipe_\<close> (the number 1) instead of
  \<open>wipe_distance_\<close>, returns \<open>(1 - 1) * 0.5 = 0\<close>.
\<close>

theorem get_missing_retraction_full_wipe_value:
  "reachable demo_tol demo_wiper_moved
   \<and> use_full_wipe demo_wiper_moved
   \<and> get_missing_retraction demo_wiper_moved = Finite 0
   \<and> times_double (minus_finite (wipe_distance demo_wiper_moved) (total_distance demo_wiper_moved))
        (distance_to_retraction_ratio demo_wiper_moved) = Finite (7 / 10)"
  using demo_wiper_moved_reachable
  by (simp add: get_missing_retraction_def wipe_distance_to_retraction_double_def demo_defs)

subsection \<open>Pruning\<close>

lemma not_less_than_lower:
  assumes "0 \<le> tol" and "\<not> less_than tol x d"
  shows "d - tol \<le> x"
  using assms by (auto simp: less_than_def is_equal_def)

text \<open>
  Pruning only shrinks: it never lengthens the history and never raises the total
  distance.
\<close>

theorem prune_history_shrinks:
  assumes "prune_history tol w = Inr w'"
  shows "history_size (history w') \<le> history_size (history w)
       \<and> total_distance w' \<le> total_distance w"
proof (cases "get_wipe_distance w")
  case NaN
  with assms show ?thesis by (simp add: prune_history_def)
next
  case Infinite
  with assms show ?thesis by (simp add: prune_history_def)
next
  case (Finite d)
  with assms have run: "prune_loop tol d w = Inr w'"
    by (simp add: prune_history_def)
  show ?thesis
  proof (rule prune_loop_invariant[OF run,
        where P = "\<lambda>v. history_size (history v) \<le> history_size (history w)
                      \<and> total_distance v \<le> total_distance w"])
    show "history_size (history w) \<le> history_size (history w)
        \<and> total_distance w \<le> total_distance w" by simp
  next
    fix v :: gcode_wiper and front_item start :: gcode_wiper_position
    assume v: "history_size (history v) \<le> history_size (history w)
        \<and> total_distance v \<le> total_distance w"
    have "history_size (history_remove (history v)) \<le> history_size (history v)"
      by (simp add: history_size_def history_remove_def)
    with v get_cartesian_distance_nonneg[of "wx start" "wy start" "wx front_item" "wy front_item"]
    show "history_size (history (v\<lparr>p_starting_position := Some front_item,
              total_distance := total_distance v
                - get_cartesian_distance (wx start) (wy start) (wx front_item) (wy front_item),
              history := history_remove (history v)\<rparr>)) \<le> history_size (history w)
        \<and> total_distance (v\<lparr>p_starting_position := Some front_item,
              total_distance := total_distance v
                - get_cartesian_distance (wx start) (wy start) (wx front_item) (wy front_item),
              history := history_remove (history v)\<rparr>) \<le> total_distance w"
      by simp
  qed
qed

theorem prune_history_shrinks_witness:
  "prune_history demo_tol
        (demo_wiper_moved\<lparr>total_distance := 4,
                          history := \<lparr>items = [wiper_at 1 0, wiper_at 4 0], undo_items = []\<rparr>\<rparr>)
      = Inr (demo_wiper_moved\<lparr>total_distance := 3,
                          p_starting_position := Some (wiper_at 1 0),
                          history := \<lparr>items = [wiper_at 4 0], undo_items = []\<rparr>\<rparr>)
   \<and> history_size \<lparr>items = [wiper_at 4 0], undo_items = []\<rparr>
       \<le> history_size \<lparr>items = [wiper_at 1 0, wiper_at 4 0], undo_items = []\<rparr>
   \<and> (3 :: real) \<le> 4"
proof -
  have p: "prune_history demo_tol
        (demo_wiper_moved\<lparr>total_distance := 4,
                          history := \<lparr>items = [wiper_at 1 0, wiper_at 4 0], undo_items = []\<rparr>\<rparr>)
      = Inr (demo_wiper_moved\<lparr>total_distance := 3,
                          p_starting_position := Some (wiper_at 1 0),
                          history := \<lparr>items = [wiper_at 4 0], undo_items = []\<rparr>\<rparr>)"
    by (simp add: update_defs prune_loop.simps demo_defs comparison_defs history_defs
        get_cartesian_distance_same_y)
  from prune_history_shrinks[OF p] p show ?thesis by (simp add: history_size_def)
qed

text \<open>
  Claim C4, as the code has it. When the pruning loop finishes, either it has removed
  nothing and the wiper is as it was, or it has removed entries and the total distance
  is at least the wipe distance minus the tolerance: the loop keeps a front entry whose
  removal would leave the total distance \<open>less_than\<close> the wipe distance. So a total
  distance that was at least the wipe distance minus the tolerance before the loop
  still is after it. (The loop removes entries only against a wipe distance that is a
  finite number.)
\<close>

theorem prune_history_lower_bound:
  assumes "0 \<le> tol" and "prune_history tol w = Inr w'"
  shows "get_wipe_distance w' = get_wipe_distance w
       \<and> (w' = w
            \<or> (history_size (history w') < history_size (history w)
               \<and> (\<exists>d. get_wipe_distance w = Finite d \<and> d - tol \<le> total_distance w')))
       \<and> (\<forall>d. get_wipe_distance w = Finite d \<and> d - tol \<le> total_distance w
            \<longrightarrow> d - tol \<le> total_distance w')"
proof (cases "get_wipe_distance w")
  case NaN
  with assms(2) show ?thesis by (simp add: prune_history_def)
next
  case Infinite
  with assms(2) show ?thesis by (simp add: prune_history_def)
next
  case (Finite d)
  let ?P = "\<lambda>v. get_wipe_distance v = Finite d
       \<and> (v = w \<or> (history_size (history v) < history_size (history w)
                     \<and> d - tol \<le> total_distance v))"
  from assms(2) Finite have run: "prune_loop tol d w = Inr w'" by (simp add: prune_history_def)
  have "?P w'"
  proof (rule prune_loop_invariant[OF run, where P = ?P])
    show "?P w" using Finite by simp
  next
    fix v front_item start
    assume v: "?P v" and pk: "history_peek (history v) = Some front_item"
      and keep: "\<not> less_than tol (total_distance v
             - get_cartesian_distance (wx start) (wy start) (wx front_item) (wy front_item)) d"
    let ?v = "v\<lparr>p_starting_position := Some front_item,
              total_distance := total_distance v
                - get_cartesian_distance (wx start) (wy start) (wx front_item) (wy front_item),
              history := history_remove (history v)\<rparr>"
    from pk have "history_size (history ?v) < history_size (history v)"
      by (auto simp: history_peek_def history_size_def history_remove_def split: list.splits)
    moreover from v have "history_size (history v) \<le> history_size (history w)" by auto
    moreover from not_less_than_lower[OF assms(1) keep] have "d - tol \<le> total_distance ?v"
      by simp
    moreover have "get_wipe_distance ?v = get_wipe_distance v"
      by (simp add: get_wipe_distance_def)
    with v have "get_wipe_distance ?v = Finite d" by simp
    ultimately show "?P ?v" by simp
  qed
  with Finite show ?thesis by auto
qed

text \<open>
  The witness: an anchor at (0, 0), the entries (1, 0) and (4, 0) and a total distance
  of 4; the loop removes (1, 0) and stops at a total distance of 3.
\<close>

theorem prune_history_lower_bound_witness:
  "0 \<le> demo_tol
   \<and> prune_history demo_tol
        (demo_wiper_moved\<lparr>total_distance := 4,
                          history := \<lparr>items = [wiper_at 1 0, wiper_at 4 0], undo_items = []\<rparr>\<rparr>)
      = Inr (demo_wiper_moved\<lparr>total_distance := 3,
                          p_starting_position := Some (wiper_at 1 0),
                          history := \<lparr>items = [wiper_at 4 0], undo_items = []\<rparr>\<rparr>)
   \<and> get_wipe_distance demo_wiper_moved = Finite (12 / 5)
   \<and> 12 / 5 - demo_tol \<le> 4
   \<and> 12 / 5 - demo_tol \<le> 3"
proof -
  have t: "0 \<le> demo_tol" by (simp add: demo_tol_def)
  have p: "prune_history demo_tol
        (demo_wiper_moved\<lparr>total_distance := 4,
                          history := \<lparr>items = [wiper_at 1 0, wiper_at 4 0], undo_items = []\<rparr>\<rparr>)
      = Inr (demo_wiper_moved\<lparr>total_distance := 3,
                          p_starting_position := Some (wiper_at 1 0),
                          history := \<lparr>items = [wiper_at 4 0], undo_items = []\<rparr>\<rparr>)"
    by (simp add: update_defs prune_loop.simps demo_defs comparison_defs history_defs
        get_cartesian_distance_same_y)
  have d: "get_wipe_distance
      (demo_wiper_moved\<lparr>total_distance := 4,
                        history := \<lparr>items = [wiper_at 1 0, wiper_at 4 0], undo_items = []\<rparr>\<rparr>)
      = Finite (12 / 5)"
    by (simp add: get_wipe_distance_def demo_defs)
  from prune_history_lower_bound[OF t p] t p d show ?thesis
    by (simp add: get_wipe_distance_def demo_defs)
qed

text \<open>
  The claim as it is written fails twice. After the first move of a wipe the history
  holds one entry and the total distance 1 is below the wipe distance 2.4: the loop
  does not run. And a second move that takes the total distance to \<open>3.4 - 1e-9\<close> has
  the loop remove the first entry, since what is left, \<open>2.4 - 1e-9\<close>, is within the
  tolerance of the wipe distance; one entry remains and the total distance is below
  the wipe distance.
\<close>

theorem prune_history_lower_bound_counterexample:
  "update demo_tol (extruding_move 1 0) (extruding_move 0 0) demo_wiper = Inr demo_wiper_moved
   \<and> history_size (history demo_wiper_moved) = 1
   \<and> get_wipe_distance demo_wiper_moved = Finite (12 / 5)
   \<and> total_distance demo_wiper_moved < 12 / 5
   \<and> update demo_tol (extruding_move (17 / 5 - 1 / 1000000000) 0) (extruding_move 1 0)
        demo_wiper_moved
      = Inr (demo_wiper_moved
              \<lparr>total_distance := 12 / 5 - 1 / 1000000000, previous_total_distance := 1,
               p_starting_position := Some (wiper_at 1 0),
               p_previous_starting_position := Some (wiper_at 0 0),
               history := \<lparr>items = [wiper_at (17 / 5 - 1 / 1000000000) 0],
                           undo_items = [wiper_at 1 0]\<rparr>\<rparr>)
   \<and> (12 / 5 - 1 / 1000000000 :: real) < 12 / 5"
proof -
  have "update demo_tol (extruding_move (17 / 5 - 1 / 1000000000) 0) (extruding_move 1 0)
        demo_wiper_moved
      = Inr (demo_wiper_moved
              \<lparr>total_distance := 12 / 5 - 1 / 1000000000, previous_total_distance := 1,
               p_starting_position := Some (wiper_at 1 0),
               p_previous_starting_position := Some (wiper_at 0 0),
               history := \<lparr>items = [wiper_at (17 / 5 - 1 / 1000000000) 0],
                           undo_items = [wiper_at 1 0]\<rparr>\<rparr>)"
    by (simp add: update_defs prune_loop.simps demo_defs comparison_defs history_defs
        get_cartesian_distance_same_y)
  with demo_wiper_moved_update show ?thesis
    by (simp add: get_wipe_distance_def history_size_def demo_defs)
qed

subsection \<open>Clipping\<close>

lemma scaled_distance:
  "get_cartesian_distance fx fy (fx + (tx - fx) * r) (fy + (ty - fy) * r)
     = \<bar>r\<bar> * get_cartesian_distance fx fy tx ty"
proof -
  have "(fx - (fx + (tx - fx) * r)) * (fx - (fx + (tx - fx) * r))
        + (fy - (fy + (ty - fy) * r)) * (fy - (fy + (ty - fy) * r))
        = (r * r) * ((fx - tx) * (fx - tx) + (fy - ty) * (fy - ty))"
    by (simp add: algebra_simps)
  then have "get_cartesian_distance fx fy (fx + (tx - fx) * r) (fy + (ty - fy) * r)
        = sqrt ((r * r) * ((fx - tx) * (fx - tx) + (fy - ty) * (fy - ty)))"
    unfolding get_cartesian_distance_def by (rule arg_cong)
  also have "\<dots> = sqrt (r * r) * sqrt ((fx - tx) * (fx - tx) + (fy - ty) * (fy - ty))"
    by (rule real_sqrt_mult)
  also have "sqrt (r * r) = \<bar>r\<bar>" by simp
  finally show ?thesis by (simp add: get_cartesian_distance_def)
qed

lemma clipped_distance:
  fixes fx fy tx ty d :: real
  assumes pos: "0 < get_cartesian_distance fx fy tx ty"
    and le: "d \<le> get_cartesian_distance fx fy tx ty"
  shows "get_cartesian_distance fx fy
           (fx + (tx - fx) * ((get_cartesian_distance fx fy tx ty - d)
                               / get_cartesian_distance fx fy tx ty))
           (fy + (ty - fy) * ((get_cartesian_distance fx fy tx ty - d)
                               / get_cartesian_distance fx fy tx ty))
         = get_cartesian_distance fx fy tx ty - d"
proof -
  from pos le have "0 \<le> (get_cartesian_distance fx fy tx ty - d) / get_cartesian_distance fx fy tx ty"
    by simp
  then have "\<bar>(get_cartesian_distance fx fy tx ty - d) / get_cartesian_distance fx fy tx ty\<bar>
      = (get_cartesian_distance fx fy tx ty - d) / get_cartesian_distance fx fy tx ty"
    by (rule abs_of_nonneg)
  with pos show ?thesis unfolding scaled_distance by simp
qed

lemma clipped_position_distance:
  assumes "0 < get_cartesian_distance (wx f) (wy f) (wx t) (wy t)"
    and "d \<le> get_cartesian_distance (wx f) (wy f) (wx t) (wy t)"
  shows "get_cartesian_distance (wx f) (wy f)
           (wx (clipped_position d f t)) (wy (clipped_position d f t))
         = get_cartesian_distance (wx f) (wy f) (wx t) (wy t) - d"
  using clipped_distance[OF assms] by (simp add: clipped_position_def Let_def)

text \<open>What \<open>clip_wipe_path\<close> does on a store whose unused addresses are empty.\<close>

lemma clip_wipe_path_result:
  assumes fresh: "\<forall>a. a < next_free st \<or> cells st a = None"
    and f: "cells st from_position = Some f"
    and t: "cells st to_position = Some t"
    and len: "get_cartesian_distance (wx f) (wy f) (wx t) (wy t) \<noteq> 0"
  shows "clip_wipe_path d from_position to_position st =
           Inr (next_free st, Suc (next_free st),
                st\<lparr>cells := (cells st)(next_free st \<mapsto> f,
                                         Suc (next_free st) \<mapsto> clipped_position d f t),
                   next_free := Suc (Suc (next_free st))\<rparr>)"
proof -
  from fresh f have nf: "from_position \<noteq> next_free st" by (metis less_irrefl option.distinct(1))
  from fresh t have nt: "to_position \<noteq> next_free st" by (metis less_irrefl option.distinct(1))
  from f t nf nt len show ?thesis
    by (simp add: clip_wipe_path_def new_gcode_wiper_position_def
        clipped_position_def Let_def fun_upd_twist)
qed

lemma clip_copies_result:
  "clip_copies d first_position start_position =
     (if get_cartesian_distance (wx first_position) (wy first_position)
           (wx start_position) (wy start_position) = 0
      then Inl NonFinite
      else Inr (first_position, clipped_position d first_position start_position))"
  by (simp add: clip_copies_def clip_wipe_path_def new_gcode_wiper_position_def
      clipped_position_def Let_def)

text \<open>
  Claim C8. For two allocated end points with a segment of a length above 0 and a
  distance to clip of at most that length, \<open>clip_wipe_path\<close> leaves its two pointers at
  two new objects; every object that was allocated before, the two originals among
  them, is as it was; the copy of \<open>from\<close> equals the original; the copy of \<open>to\<close> is
  the original with the coordinates
  \<open>from + (to - from) * (segment_length - distance_to_clip) / segment_length\<close>, and its
  cartesian distance from \<open>from\<close> is the segment length minus the distance to clip.
\<close>

theorem clip_wipe_path_copies:
  assumes "\<forall>a. a < next_free st \<or> cells st a = None"
    and "cells st from_position = Some f"
    and "cells st to_position = Some t"
    and "0 < get_cartesian_distance (wx f) (wy f) (wx t) (wy t)"
    and "d \<le> get_cartesian_distance (wx f) (wy f) (wx t) (wy t)"
  shows "\<exists>from_copy to_copy st'.
      clip_wipe_path d from_position to_position st = Inr (from_copy, to_copy, st')
      \<and> cells st from_copy = None \<and> cells st to_copy = None \<and> from_copy \<noteq> to_copy
      \<and> (\<forall>a. a = from_copy \<or> a = to_copy \<or> cells st' a = cells st a)
      \<and> cells st' from_position = Some f \<and> cells st' to_position = Some t
      \<and> cells st' from_copy = Some f
      \<and> cells st' to_copy =
          Some (t\<lparr>wx := wx f + (wx t - wx f)
                          * ((get_cartesian_distance (wx f) (wy f) (wx t) (wy t) - d)
                             / get_cartesian_distance (wx f) (wy f) (wx t) (wy t)),
                  wy := wy f + (wy t - wy f)
                          * ((get_cartesian_distance (wx f) (wy f) (wx t) (wy t) - d)
                             / get_cartesian_distance (wx f) (wy f) (wx t) (wy t))\<rparr>)
      \<and> (\<exists>t'. cells st' to_copy = Some t'
              \<and> get_cartesian_distance (wx f) (wy f) (wx t') (wy t')
                  = get_cartesian_distance (wx f) (wy f) (wx t) (wy t) - d)"
proof -
  let ?n = "next_free st"
  let ?st' = "st\<lparr>cells := (cells st)(?n \<mapsto> f, Suc ?n \<mapsto> clipped_position d f t),
                 next_free := Suc (Suc ?n)\<rparr>"
  from assms(4) have "get_cartesian_distance (wx f) (wy f) (wx t) (wy t) \<noteq> 0" by simp
  from clip_wipe_path_result[OF assms(1-3) this]
  have run: "clip_wipe_path d from_position to_position st = Inr (?n, Suc ?n, ?st')" .
  from assms(1) have e1: "cells st ?n = None" and e2: "cells st (Suc ?n) = None"
    by (metis less_irrefl, metis Suc_n_not_le_n less_imp_le_nat)
  from assms(2,3) e1 e2 have ne: "from_position \<noteq> ?n" "from_position \<noteq> Suc ?n"
      "to_position \<noteq> ?n" "to_position \<noteq> Suc ?n"
    by auto
  have dist: "get_cartesian_distance (wx f) (wy f)
           (wx (clipped_position d f t)) (wy (clipped_position d f t))
         = get_cartesian_distance (wx f) (wy f) (wx t) (wy t) - d"
    by (rule clipped_position_distance[OF assms(4,5)])
  have coords: "clipped_position d f t =
          t\<lparr>wx := wx f + (wx t - wx f)
                          * ((get_cartesian_distance (wx f) (wy f) (wx t) (wy t) - d)
                             / get_cartesian_distance (wx f) (wy f) (wx t) (wy t)),
                  wy := wy f + (wy t - wy f)
                          * ((get_cartesian_distance (wx f) (wy f) (wx t) (wy t) - d)
                             / get_cartesian_distance (wx f) (wy f) (wx t) (wy t))\<rparr>"
    by (simp add: clipped_position_def Let_def)
  have "cells st ?n = None \<and> cells st (Suc ?n) = None \<and> ?n \<noteq> Suc ?n
      \<and> (\<forall>a. a = ?n \<or> a = Suc ?n \<or> cells ?st' a = cells st a)
      \<and> cells ?st' from_position = Some f \<and> cells ?st' to_position = Some t
      \<and> cells ?st' ?n = Some f
      \<and> cells ?st' (Suc ?n) = Some (clipped_position d f t)"
    using e1 e2 ne assms(2,3) by simp
  with run dist coords show ?thesis by (metis (no_types, lifting))
qed

text \<open>
  The witness: the entry (4, 0) at address 0, the anchor (1, 0) at address 1, and 0.6 to
  clip from the segment of length 3; the copy of the anchor is moved to (1.6, 0).
\<close>

theorem clip_wipe_path_copies_witness:
  "(\<forall>a. a < next_free \<lparr>cells = [0 \<mapsto> wiper_at 4 0, Suc 0 \<mapsto> wiper_at 1 0], next_free = 2\<rparr>
        \<or> cells \<lparr>cells = [0 \<mapsto> wiper_at 4 0, Suc 0 \<mapsto> wiper_at 1 0], next_free = 2\<rparr> a = None)
   \<and> get_cartesian_distance (wx (wiper_at 4 0)) (wy (wiper_at 4 0))
        (wx (wiper_at 1 0)) (wy (wiper_at 1 0)) = 3
   \<and> clip_wipe_path (3 / 5) 0 (Suc 0)
        \<lparr>cells = [0 \<mapsto> wiper_at 4 0, Suc 0 \<mapsto> wiper_at 1 0], next_free = 2\<rparr>
      = Inr (2, 3,
             \<lparr>cells = [0 \<mapsto> wiper_at 4 0, Suc 0 \<mapsto> wiper_at 1 0,
                       2 \<mapsto> wiper_at 4 0, 3 \<mapsto> (wiper_at 1 0)\<lparr>wx := 8 / 5\<rparr>],
              next_free = 4\<rparr>)
   \<and> get_cartesian_distance (wx (wiper_at 4 0)) (wy (wiper_at 4 0))
        (wx ((wiper_at 1 0)\<lparr>wx := 8 / 5\<rparr>)) (wy ((wiper_at 1 0)\<lparr>wx := 8 / 5\<rparr>)) = 3 - 3 / 5"
proof -
  let ?st = "\<lparr>cells = [0 \<mapsto> wiper_at 4 0, Suc 0 \<mapsto> wiper_at 1 0], next_free = 2\<rparr>"
  have fresh: "\<forall>a. a < next_free ?st \<or> cells ?st a = None" by auto
  have f: "cells ?st 0 = Some (wiper_at 4 0)" and t: "cells ?st (Suc 0) = Some (wiper_at 1 0)"
    by simp_all
  have len: "get_cartesian_distance (wx (wiper_at 4 0)) (wy (wiper_at 4 0))
        (wx (wiper_at 1 0)) (wy (wiper_at 1 0)) = 3"
    by (simp add: demo_defs get_cartesian_distance_same_y)
  have pos: "0 < get_cartesian_distance (wx (wiper_at 4 0)) (wy (wiper_at 4 0))
        (wx (wiper_at 1 0)) (wy (wiper_at 1 0))"
    and le: "3 / 5 \<le> get_cartesian_distance (wx (wiper_at 4 0)) (wy (wiper_at 4 0))
        (wx (wiper_at 1 0)) (wy (wiper_at 1 0))"
    by (simp_all add: len)
  have run: "clip_wipe_path (3 / 5) 0 (Suc 0) ?st
      = Inr (2, 3,
             \<lparr>cells = [0 \<mapsto> wiper_at 4 0, Suc 0 \<mapsto> wiper_at 1 0,
                       2 \<mapsto> wiper_at 4 0, 3 \<mapsto> (wiper_at 1 0)\<lparr>wx := 8 / 5\<rparr>],
              next_free = 4\<rparr>)"
    by (simp add: clip_wipe_path_def new_gcode_wiper_position_def Let_def
        demo_defs get_cartesian_distance_same_y numeral_2_eq_2 numeral_3_eq_3)
  have d: "get_cartesian_distance (wx (wiper_at 4 0)) (wy (wiper_at 4 0))
        (wx ((wiper_at 1 0)\<lparr>wx := 8 / 5\<rparr>)) (wy ((wiper_at 1 0)\<lparr>wx := 8 / 5\<rparr>)) = 3 - 3 / 5"
    by (simp add: demo_defs get_cartesian_distance_same_y)
  from clip_wipe_path_copies[OF fresh f t pos le] fresh len run d
  show ?thesis by simp
qed

subsection \<open>The order of the wipe steps\<close>

lemma motion_of_get_wipe_step:
  "motion_of (fst (get_wipe_step w a b rr e f r)) = Some (segment_motion w (a, b, r))"
  by (simp add: get_wipe_step_def Let_def)

lemma motion_not_retract: "motion_of s = Some m \<Longrightarrow> \<not> is_retract_step s"
  by (cases s) simp_all

lemma wipe_loop_visit_first:
  assumes "previous_position st = None"
  shows "wipe_steps (wipe_loop_visit w ratio hp pass st cur) = wipe_steps st"
    and "previous_position (wipe_loop_visit w ratio hp pass st cur) = Some cur"
    and "current_position (wipe_loop_visit w ratio hp pass st cur) = Some cur"
  using assms by (simp_all add: wipe_loop_visit_def)

lemma wipe_loop_visit_next:
  assumes "previous_position st = Some prev"
  shows "\<exists>s. wipe_steps (wipe_loop_visit w ratio hp pass st cur) = wipe_steps st @ [s]
            \<and> motion_of s = Some (segment_motion w (prev, cur, pass \<noteq> 0))"
    and "previous_position (wipe_loop_visit w ratio hp pass st cur) = Some cur"
    and "current_position (wipe_loop_visit w ratio hp pass st cur) = Some cur"
  using assms
  by (simp_all add: wipe_loop_visit_def Let_def case_prod_beta motion_of_get_wipe_step
      del: segment_motion.simps)

lemma foldl_wipe_loop_visit:
  assumes "previous_position st = Some p"
  shows "\<exists>steps'. wipe_steps (foldl (wipe_loop_visit w ratio hp pass) st qs) = wipe_steps st @ steps'
        \<and> map motion_of steps'
            = map (\<lambda>(a, b). Some (segment_motion w (a, b, pass \<noteq> 0))) (zip (p # qs) qs)
        \<and> previous_position (foldl (wipe_loop_visit w ratio hp pass) st qs) = Some (last (p # qs))
        \<and> current_position (foldl (wipe_loop_visit w ratio hp pass) st qs)
            = (if qs = [] then current_position st else Some (last qs))"
  using assms
proof (induction qs arbitrary: st p)
  case Nil
  then show ?case by simp
next
  case (Cons q qs)
  let ?st = "wipe_loop_visit w ratio hp pass st q"
  from wipe_loop_visit_next[OF Cons.prems, of w ratio hp pass q]
  obtain s where s: "wipe_steps ?st = wipe_steps st @ [s]"
      "motion_of s = Some (segment_motion w (p, q, pass \<noteq> 0))"
    and pv: "previous_position ?st = Some q" and cu: "current_position ?st = Some q"
    by blast
  from Cons.IH[OF pv] obtain steps' where
    st': "wipe_steps (foldl (wipe_loop_visit w ratio hp pass) ?st qs) = wipe_steps ?st @ steps'"
      "map motion_of steps'
         = map (\<lambda>(a, b). Some (segment_motion w (a, b, pass \<noteq> 0))) (zip (q # qs) qs)"
      "previous_position (foldl (wipe_loop_visit w ratio hp pass) ?st qs) = Some (last (q # qs))"
      "current_position (foldl (wipe_loop_visit w ratio hp pass) ?st qs)
         = (if qs = [] then current_position ?st else Some (last qs))"
    by blast
  show ?case
  proof (intro exI[of _ "s # steps'"] conjI)
    show "wipe_steps (foldl (wipe_loop_visit w ratio hp pass) st (q # qs)) = wipe_steps st @ s # steps'"
      using st'(1) s(1) by simp
    show "map motion_of (s # steps')
        = map (\<lambda>(a, b). Some (segment_motion w (a, b, pass \<noteq> 0))) (zip (p # q # qs) (q # qs))"
      using st'(2) s(2) by simp
    show "previous_position (foldl (wipe_loop_visit w ratio hp pass) st (q # qs)) = Some (last (p # q # qs))"
      using st'(3) by simp
    show "current_position (foldl (wipe_loop_visit w ratio hp pass) st (q # qs))
        = (if q # qs = [] then current_position st else Some (last (q # qs)))"
      using st'(4) cu by simp
  qed
qed

lemma foldl_wipe_loop_body:
  "foldl (wipe_loop_body w ratio positions start_index first_position hp pass) st indices
     = foldl (wipe_loop_visit w ratio hp pass) st
         (map (\<lambda>i. if i = start_index then first_position else positions ! i) indices)"
  by (induction indices arbitrary: st) (simp_all add: wipe_loop_body_def)

lemma positions_of_indices:
  "map (\<lambda>i. if i = 0 then first_position else (p0 # rest) ! i) [0..<length (p0 # rest)]
     = first_position # rest"
proof -
  have "(\<lambda>i. if i = 0 then first_position else (p0 # rest) ! i) = (\<lambda>i. (first_position # rest) ! i)"
    by (rule ext) (simp add: nth_Cons')
  then have "map (\<lambda>i. if i = 0 then first_position else (p0 # rest) ! i) [0..<length (p0 # rest)]
      = map (\<lambda>i. (first_position # rest) ! i) [0..<length (first_position # rest)]"
    by simp
  also have "\<dots> = first_position # rest" by (rule map_nth)
  finally show ?thesis .
qed

lemma positions_of_indices_tail:
  "map (\<lambda>i. if i = 0 then first_position else (p0 # rest) ! i) [Suc 0..<length (p0 # rest)] = rest"
proof -
  have "map (\<lambda>i. if i = 0 then first_position else (p0 # rest) ! i) [Suc 0..<length (p0 # rest)]
      = map (\<lambda>i. if i = 0 then first_position else (p0 # rest) ! i) (map Suc [0..<length rest])"
    by (simp add: map_Suc_upt)
  also have "\<dots> = map (\<lambda>i. rest ! i) [0..<length rest]" by simp
  also have "\<dots> = rest" by (rule map_nth)
  finally show ?thesis .
qed


lemma wipe_turn_around_result:
  assumes "previous_position st = Some prev"
  shows "\<exists>st2 s1 s2. wipe_turn_around w ratio start st = Inr st2
      \<and> wipe_steps st2 = wipe_steps st @ [s1, s2]
      \<and> motion_of s1 = Some (segment_motion w (prev, start, False))
      \<and> motion_of s2 = Some (segment_motion w (start, prev, True))
      \<and> previous_position st2 = Some prev
      \<and> current_position st2 = current_position st"
  using assms
  by (simp add: wipe_turn_around_def Let_def case_prod_beta motion_of_get_wipe_step
      del: segment_motion.simps)

lemma wipe_post_retract_result:
  assumes "current_position st \<noteq> None"
  shows "\<exists>e f. wipe_post_retract tol w post_length st
           = wipe_steps st @ (if 0 < post_length then [RetractStep e f] else [])"
  using assms by (auto simp: wipe_post_retract_def get_retract_step_def)

lemma wipe_pre_retract_result:
  "\<exists>e f. wipe_steps (wipe_pre_retract w positions hp) = (if hp then [RetractStep e f] else [])"
  "previous_position (wipe_pre_retract w positions hp) = None"
  by (simp_all add: wipe_pre_retract_def get_retract_step_def Let_def)

text \<open>The steps of \<open>emit_wipe_steps\<close> are in the order of \<open>wipe_path\<close>.\<close>

lemma emit_wipe_steps_order:
  "\<exists>mid e1 f1 e2 f2.
     emit_wipe_steps tol w ratio (p0 # rest) 0 first_position start_position post_length
       = Inr ((if greater_than tol (pre_wipe_retract_length w) 0 then [RetractStep e1 f1] else [])
              @ mid
              @ (if 0 < post_length then [RetractStep e2 f2] else []))
     \<and> map motion_of mid
         = map (\<lambda>seg. Some (segment_motion w seg)) (wipe_path (first_position # rest) start_position)"
proof -
  define hp where "hp = greater_than tol (pre_wipe_retract_length w) 0"
  define st0 where "st0 = wipe_pre_retract w (p0 # rest) hp"
  define st1 where "st1 = foldl (wipe_loop_body w ratio (p0 # rest) 0 first_position hp 0) st0
                (rev [0..<length (p0 # rest)])"
  let ?ps = "first_position # rest"
  obtain e1 f1 where pre: "wipe_steps st0 = (if hp then [RetractStep e1 f1] else [])"
    unfolding st0_def using wipe_pre_retract_result(1) by blast
  have none: "previous_position st0 = None"
    unfolding st0_def by (rule wipe_pre_retract_result(2))
  obtain q qs where rv: "rev ?ps = q # qs" by (cases "rev ?ps") auto
  define sa where "sa = wipe_loop_visit w ratio hp 0 st0 q"
  have st1: "st1 = foldl (wipe_loop_visit w ratio hp 0) sa qs"
    unfolding st1_def sa_def foldl_wipe_loop_body rev_map[symmetric] positions_of_indices rv
    by simp
  note sa = wipe_loop_visit_first[OF none, of w ratio hp 0 q, folded sa_def]
  from foldl_wipe_loop_visit[OF sa(2), of w ratio hp 0 qs] obtain out where
    out: "wipe_steps st1 = wipe_steps sa @ out"
      "map motion_of out = map (\<lambda>(a, b). Some (segment_motion w (a, b, (0::nat) \<noteq> 0))) (zip (q # qs) qs)"
      "previous_position st1 = Some (last (q # qs))"
      "current_position st1 = (if qs = [] then current_position sa else Some (last qs))"
    unfolding st1 by blast
  have lastq: "last (q # qs) = first_position"
    using rv by (metis last_rev list.sel(1) list.distinct(1))
  from out(3) lastq have pv1: "previous_position st1 = Some first_position" by simp
  from out(4) sa(3) have cu1: "current_position st1 \<noteq> None" by simp
  from wipe_turn_around_result[OF pv1, of w ratio start_position] obtain st2 s1 s2 where
    turn: "wipe_turn_around w ratio start_position st1 = Inr st2"
      "wipe_steps st2 = wipe_steps st1 @ [s1, s2]"
      "motion_of s1 = Some (segment_motion w (first_position, start_position, False))"
      "motion_of s2 = Some (segment_motion w (start_position, first_position, True))"
      "previous_position st2 = Some first_position"
      "current_position st2 = current_position st1"
    by blast
  define st3 where "st3 = foldl (wipe_loop_body w ratio (p0 # rest) 0 first_position hp 1) st2
                [Suc 0..<length (p0 # rest)]"
  have st3: "st3 = foldl (wipe_loop_visit w ratio hp 1) st2 rest"
    unfolding st3_def foldl_wipe_loop_body positions_of_indices_tail ..
  from foldl_wipe_loop_visit[OF turn(5), of w ratio hp 1 rest] obtain ret where
    rt: "wipe_steps st3 = wipe_steps st2 @ ret"
      "map motion_of ret = map (\<lambda>(a, b). Some (segment_motion w (a, b, (1::nat) \<noteq> 0))) (zip ?ps rest)"
      "current_position st3 = (if rest = [] then current_position st2 else Some (last rest))"
    unfolding st3 by blast
  from rt(3) turn(6) cu1 have cu3: "current_position st3 \<noteq> None" by simp
  from wipe_post_retract_result[OF cu3, of tol w post_length] obtain e2 f2 where
    post: "wipe_post_retract tol w post_length st3
           = wipe_steps st3 @ (if 0 < post_length then [RetractStep e2 f2] else [])"
    by blast
  let ?mid = "out @ [s1, s2] @ ret"
  have "emit_wipe_steps tol w ratio (p0 # rest) 0 first_position start_position post_length
       = Inr (wipe_post_retract tol w post_length st3)"
    unfolding emit_wipe_steps_def Let_def hp_def[symmetric] st0_def[symmetric]
      st1_def[symmetric] turn(1) sum.case st3_def[symmetric] ..
  then have run: "emit_wipe_steps tol w ratio (p0 # rest) 0 first_position start_position post_length
       = Inr ((if hp then [RetractStep e1 f1] else []) @ ?mid
              @ (if 0 < post_length then [RetractStep e2 f2] else []))"
    unfolding post rt(1) turn(2) out(1) sa(1) pre by simp
  have zip_out: "zip (q # qs) qs = zip (rev ?ps) (tl (rev ?ps))" using rv by simp
  have path: "map motion_of ?mid
         = map (\<lambda>seg. Some (segment_motion w seg)) (wipe_path ?ps start_position)"
    unfolding map_append out(2) rt(2) zip_out
    using turn(3,4)
    by (simp add: case_prod_beta comp_def del: segment_motion.simps)
  from run path show ?thesis unfolding hp_def by blast
qed

lemma motion_steps_not_retract:
  assumes "map motion_of mid = map (\<lambda>seg. Some (g seg)) path" and "s \<in> set mid"
  shows "\<not> is_retract_step s"
proof -
  from assms(2) have "motion_of s \<in> set (map motion_of mid)" by simp
  then have "motion_of s \<in> set (map (\<lambda>seg. Some (g seg)) path)" by (simp only: assms(1))
  then obtain seg where "motion_of s = Some (g seg)" by auto
  then show ?thesis by (rule motion_not_retract)
qed

lemma wipe_path_not_empty: "wipe_path (p0 # rest) start \<noteq> []"
  by simp

text \<open>
  What \<open>get_wipe_steps\<close> returns when it passes its first test: at least the pair of
  steps to the anchor and back.
\<close>

lemma get_wipe_steps_emitted:
  assumes run: "get_wipe_steps tol w = Inr steps"
    and start0: "p_starting_position w = Some start0"
    and its: "items (history w) = p0 # rest"
    and total: "total_distance w \<noteq> 0"
  shows "\<exists>missing extra mid e1 f1 e2 f2.
      get_missing_retraction w = Finite missing
      \<and> get_extra_retraction w = Finite extra
      \<and> steps = (if greater_than tol (pre_wipe_retract_length w) 0
                  then [RetractStep e1 f1] else [])
                 @ mid
                 @ (if 0 < resolved_post_wipe_retract_length tol w missing
                    then [RetractStep e2 f2] else [])
      \<and> map motion_of mid
          = map (\<lambda>seg. Some (segment_motion w seg))
              (wipe_path (items (history w))
                 (if greater_than tol extra 0
                  then clipped_position extra (hd (items (history w))) start0
                  else start0))
      \<and> mid \<noteq> []
      \<and> is_retract_step (hd steps) = greater_than tol (pre_wipe_retract_length w) 0
      \<and> is_retract_step (last steps) = (0 < resolved_post_wipe_retract_length tol w missing)"
proof -
  from run start0 its total obtain missing where
    missing: "get_missing_retraction w = Finite missing"
    by (cases "get_missing_retraction w")
       (auto simp: get_wipe_steps_def Let_def history_size_def)
  from run start0 its total missing obtain extra where
    extra: "get_extra_retraction w = Finite extra"
    by (cases "get_extra_retraction w")
       (auto simp: get_wipe_steps_def Let_def history_size_def)
  from run start0 its total missing extra obtain ratio where
    ratio: "distance_to_retraction_ratio w = Finite ratio"
    by (cases "distance_to_retraction_ratio w")
       (auto simp: get_wipe_steps_def Let_def history_size_def)
  let ?start = "if greater_than tol extra 0 then clipped_position extra p0 start0 else start0"
  let ?post = "resolved_post_wipe_retract_length tol w missing"
  have emit: "emit_wipe_steps tol w ratio (p0 # rest) 0 p0 ?start ?post = Inr steps"
  proof (cases "greater_than tol extra 0")
    case True
    with run start0 its total missing extra ratio show ?thesis
      by (simp add: get_wipe_steps_def Let_def history_size_def get_position_history_def
          clip_copies_result split: if_splits)
  next
    case False
    with run start0 its total missing extra ratio show ?thesis
      by (simp add: get_wipe_steps_def Let_def history_size_def get_position_history_def)
  qed
  from emit_wipe_steps_order[of tol w ratio p0 rest p0 ?start ?post] emit
  obtain mid e1 f1 e2 f2 where
    steps: "steps = (if greater_than tol (pre_wipe_retract_length w) 0
                     then [RetractStep e1 f1] else [])
                    @ mid @ (if 0 < ?post then [RetractStep e2 f2] else [])"
    and path: "map motion_of mid
         = map (\<lambda>seg. Some (segment_motion w seg)) (wipe_path (p0 # rest) ?start)"
    by auto
  have "length mid = length (wipe_path (p0 # rest) ?start)"
    using arg_cong[OF path, of length] by simp
  with wipe_path_not_empty[of p0 rest ?start] have mid: "mid \<noteq> []" by auto
  from mid have "\<not> is_retract_step (hd mid)" and "\<not> is_retract_step (last mid)"
    using motion_steps_not_retract[OF path] by simp_all
  with mid steps
  have ends: "is_retract_step (hd steps) = greater_than tol (pre_wipe_retract_length w) 0"
      "is_retract_step (last steps) = (0 < ?post)"
    by simp_all
  from missing extra steps path mid ends its show ?thesis by auto
qed

text \<open>
  \<open>get_wipe_steps\<close> returns without a step at its first test only: when the total
  distance is 0, there is no starting position or the history is empty.
\<close>

lemma get_wipe_steps_empty:
  "get_wipe_steps tol w = Inr []
     \<longleftrightarrow> total_distance w = 0 \<or> p_starting_position w = None \<or> history_size (history w) = 0"
proof
  assume "total_distance w = 0 \<or> p_starting_position w = None \<or> history_size (history w) = 0"
  then show "get_wipe_steps tol w = Inr []" by (auto simp: get_wipe_steps_def Let_def)
next
  assume run: "get_wipe_steps tol w = Inr []"
  show "total_distance w = 0 \<or> p_starting_position w = None \<or> history_size (history w) = 0"
  proof (rule ccontr)
    assume "\<not> (total_distance w = 0 \<or> p_starting_position w = None
               \<or> history_size (history w) = 0)"
    then obtain start0 p0 rest where "p_starting_position w = Some start0"
        "items (history w) = p0 # rest" "total_distance w \<noteq> 0"
      by (cases "items (history w)") (auto simp: history_size_def)
    from get_wipe_steps_emitted[OF run this] show False by auto
  qed
qed








subsection \<open>A wipe distance of zero\<close>

text \<open>
  Settings whose percentages are scaled down to the sum 1 leave nothing of the
  retraction for the wipe: in exact arithmetic the wipe distance is 0 and the ratio is
  \<open>0 / 0\<close>. With the rounding of the doubles the same settings can leave a wipe distance
  that is tiny but not 0: for the percentages 0.25 and 0.875 and a retraction length
  of 2 it is \<open>2^-51\<close>, and the ratio is 0.5.
\<close>

lemma rescaled_wipe_distance:
  "wipe_distance (initialize demo_tol
          (blank_wiper\<lparr>settings :=
             demo_args\<lparr>retract_before_wipe_percent := 1 / 4,
                       retract_after_wipe_percent := 7 / 8\<rparr>\<rparr>)) = Finite 0
   \<and> distance_to_retraction_ratio (initialize demo_tol
          (blank_wiper\<lparr>settings :=
             demo_args\<lparr>retract_before_wipe_percent := 1 / 4,
                       retract_after_wipe_percent := 7 / 8\<rparr>\<rparr>)) = NaN
   \<and> wipe_distance (initialize_rounded round_double demo_tol
          (blank_wiper\<lparr>settings :=
             demo_args\<lparr>retract_before_wipe_percent := 1 / 4,
                       retract_after_wipe_percent := 7 / 8\<rparr>\<rparr>)) = Finite (1 / 2 ^ 51)
   \<and> distance_to_retraction_ratio (initialize_rounded round_double demo_tol
          (blank_wiper\<lparr>settings :=
             demo_args\<lparr>retract_before_wipe_percent := 1 / 4,
                       retract_after_wipe_percent := 7 / 8\<rparr>\<rparr>)) = Finite (1 / 2)"
  by (simp add: initialize_def initialize_rounded_def normalize_percents_rounded_def
      clamp_percents_def Let_def demo_defs comparison_defs round_double_values)

text \<open>
  When \<open>initialize\<close> leaves a wipe distance of 0, it has divided by it: the ratio is
  the quotient of a finite number and 0, which is no finite number.
\<close>

lemma initialize_zero_wipe_distance:
  assumes "fl 0 = 0" and "wipe_distance (initialize_rounded fl tol w) = Finite 0"
  shows "half_wipe_distance (initialize_rounded fl tol w) = Finite 0"
    and "\<exists>x. distance_to_retraction_ratio (initialize_rounded fl tol w)
               = round_with fl (divide_double (Finite x) (Finite 0))"
    and "distance_to_retraction_ratio (initialize_rounded fl tol w) \<noteq> Finite r"
proof -
  let ?st = "normalize_percents_rounded fl tol (settings w)"
  let ?pre = "fl (retraction_length ?st * retract_before_wipe_percent ?st)"
  let ?post = "fl (retraction_length ?st * retract_after_wipe_percent ?st)"
  let ?x = "fl (fl (retraction_length ?st - ?pre) - ?post)"
  from assms(2) have ratio: "distance_to_retraction_ratio (initialize_rounded fl tol w)
      = round_with fl (divide_double (Finite ?x) (Finite 0))"
    by (simp add: initialize_rounded_def Let_def)
  then show "\<exists>x. distance_to_retraction_ratio (initialize_rounded fl tol w)
               = round_with fl (divide_double (Finite x) (Finite 0))" ..
  from ratio show "distance_to_retraction_ratio (initialize_rounded fl tol w) \<noteq> Finite r"
    by simp
  from assms show "half_wipe_distance (initialize_rounded fl tol w) = Finite 0"
    by (simp add: initialize_rounded_def Let_def)
qed

lemma constructed_wipe_disabled:
  assumes "fl 0 = 0" and "wipe_distance (gcode_wiper_new_args_rounded fl tol m args) = Finite 0"
  shows "wipe_disabled (gcode_wiper_new_args_rounded fl tol m args)"
proof -
  from assms(2)
  have "wipe_distance (initialize_rounded fl tol ((gcode_wiper_new m)\<lparr>settings := args\<rparr>)) = Finite 0"
    by (simp add: gcode_wiper_new_args_rounded_def)
  from initialize_zero_wipe_distance(1)[OF assms(1) this] assms(2) show ?thesis
    by (simp add: wipe_disabled_def gcode_wiper_new_args_rounded_def)
       (simp add: initialize_rounded_def gcode_wiper_new_def history_empty_def Let_def)
qed

lemma wipe_disabled_steps: "wipe_disabled v \<Longrightarrow> get_wipe_steps tol v = Inr []"
  by (simp add: wipe_disabled_def get_wipe_steps_def Let_def)

lemma wipe_disabled_undo: "wipe_disabled v \<Longrightarrow> wipe_disabled (undo v)"
  by (simp add: wipe_disabled_def undo_def restore_undo_data_def history_undo_def Let_def)

lemma wipe_disabled_switch: "wipe_disabled v \<Longrightarrow> wipe_disabled (v\<lparr>use_full_wipe := b\<rparr>)"
  by (simp add: wipe_disabled_def)

text \<open>
  An update of such a wiper: a reset leaves it as it is, and an appended move of a
  length above 0 is pruned at once, the total distance being above the wipe distance 0.
\<close>

lemma wipe_disabled_update:
  assumes dis: "wipe_disabled v"
    and move: "is_layer_change c \<or> \<not> (has_xy_position_changed c \<and> is_extruding c)
               \<or> 0 < get_cartesian_distance (pos_x p) (pos_y p) (pos_x c) (pos_y c)"
  shows "\<exists>v'. update tol c p v = Inr v' \<and> wipe_disabled v'"
proof (cases "is_initialized v")
  case False
  with dis show ?thesis by (simp add: update_def)
next
  case True
  show ?thesis
  proof (cases "is_layer_change c \<or> \<not> (has_xy_position_changed c \<and> is_extruding c)")
    case True
    with dis \<open>is_initialized v\<close> show ?thesis
      by (auto simp: update_def Let_def save_undo_data_def history_clear_def wipe_disabled_def)
  next
    case False
    with move have pos: "0 < get_cartesian_distance (pos_x p) (pos_y p) (pos_x c) (pos_y c)"
      by blast
    define d where "d = get_cartesian_distance (pos_x p) (pos_y p) (pos_x c) (pos_y c)"
    define v5 where "v5 = v\<lparr>p_previous_starting_position := p_starting_position v,
         p_starting_position := Some (gcode_wiper_position_of p),
         history := \<lparr>items = [gcode_wiper_position_of c], undo_items = []\<rparr>,
         previous_total_distance := 0,
         total_distance := d\<rparr>"
    define v6 where "v6 = v5\<lparr>p_starting_position := Some (gcode_wiper_position_of c),
         total_distance := 0,
         history := \<lparr>items = [], undo_items = []\<rparr>\<rparr>"
    from dis False \<open>is_initialized v\<close> have u: "update tol c p v = prune_loop tol 0 v5"
      by (simp add: update_def Let_def save_undo_data_def history_size_def history_push_back_def
          prune_history_def get_wipe_distance_def wipe_disabled_def v5_def d_def)
    have removed: "get_cartesian_distance (wx (gcode_wiper_position_of p))
        (wy (gcode_wiper_position_of p)) (wx (gcode_wiper_position_of c))
        (wy (gcode_wiper_position_of c)) = d"
      by (simp add: gcode_wiper_position_of_def d_def)
    from pos have "prune_loop tol 0 v5 = prune_loop tol 0 v6"
      by (subst prune_loop.simps)
         (simp add: v5_def v6_def history_peek_def history_remove_def removed less_than_def
           d_def[symmetric])
    also have "\<dots> = Inr v6"
      by (subst prune_loop.simps) (simp add: v6_def v5_def)
    finally have "prune_loop tol 0 v5 = Inr v6" .
    moreover from dis have "wipe_disabled v6"
      by (simp add: wipe_disabled_def v6_def v5_def)
    ultimately show ?thesis using u by simp
  qed
qed

lemma zero_wipe_reachable_disabled:
  assumes "zero_wipe_reachable tol v"
  shows "wipe_disabled v"
  using assms
proof (induction rule: zero_wipe_reachable.induct)
  case (zero_constructed fl m args)
  then show ?case by (rule constructed_wipe_disabled)
next
  case (zero_updated w current previous w')
  from wipe_disabled_update[OF zero_updated.IH zero_updated.hyps(3), of tol]
    zero_updated.hyps(2)
  show ?case by auto
next
  case (zero_undone w)
  then show ?case by (simp add: wipe_disabled_undo)
next
  case (zero_switched w b)
  then show ?case by (simp add: wipe_disabled_switch)
qed

text \<open>
  Claim C7, as the code has it. \<open>initialize\<close> guards one of its three divisions, the
  one by the sum of the percentages. When the settings make the wipe distance 0,
  \<open>initialize\<close> divides by it all the same: it returns an initialized wiper whose
  \<open>distance_to_retraction_ratio_\<close> is the quotient by 0, NaN or an infinity. This holds
  in exact arithmetic and with any rounding \<open>fl\<close> of the results that leaves 0 as it
  is, that of the doubles among them. A wiper
  that is constructed from such settings and then changed by \<open>update\<close>, \<open>undo\<close> and the
  switch of the wipe mode, the moves that \<open>update\<close> appends being of a length above 0,
  has a wipe distance of 0 in both modes and holds no path (an appended move is pruned
  at once); \<open>get_wipe_steps\<close> returns no step of it, at its first test, before any
  division; and \<open>update\<close> returns for a reset and for a move of a length above 0.
  \<open>get_wipe_steps\<close> does not test the wipe distance: it returns no step exactly when
  the total distance is 0, there is no starting position or the history is empty.
\<close>

theorem zero_wipe_distance_no_steps:
  "(fl 0 = 0 \<and> wipe_distance (initialize_rounded fl tol w) = Finite 0 \<longrightarrow>
      is_initialized (initialize_rounded fl tol w)
      \<and> half_wipe_distance (initialize_rounded fl tol w) = Finite 0
      \<and> (\<exists>x. distance_to_retraction_ratio (initialize_rounded fl tol w)
               = round_with fl (divide_double (Finite x) (Finite 0)))
      \<and> (\<forall>r. distance_to_retraction_ratio (initialize_rounded fl tol w) \<noteq> Finite r))
   \<and> (zero_wipe_reachable tol v \<longrightarrow>
        get_wipe_steps tol v = Inr []
        \<and> wipe_disabled v
        \<and> (is_layer_change c \<or> \<not> (has_xy_position_changed c \<and> is_extruding c)
             \<or> 0 < get_cartesian_distance (pos_x p) (pos_y p) (pos_x c) (pos_y c) \<longrightarrow>
            (\<exists>v'. update tol c p v = Inr v' \<and> zero_wipe_reachable tol v')))
   \<and> (get_wipe_steps tol u = Inr []
        \<longleftrightarrow> total_distance u = 0 \<or> p_starting_position u = None
            \<or> history_size (history u) = 0)"
proof -
  have "\<exists>v'. update tol c p v = Inr v' \<and> zero_wipe_reachable tol v'"
    if r: "zero_wipe_reachable tol v"
      and m: "is_layer_change c \<or> \<not> (has_xy_position_changed c \<and> is_extruding c)
             \<or> 0 < get_cartesian_distance (pos_x p) (pos_y p) (pos_x c) (pos_y c)"
  proof -
    from wipe_disabled_update[OF zero_wipe_reachable_disabled[OF r] m, of tol]
    obtain v' where v': "update tol c p v = Inr v'" by blast
    from zero_wipe_reachable.zero_updated[OF r v' m] v' show ?thesis by blast
  qed
  with initialize_zero_wipe_distance[of fl tol w] initialize_initialized[of fl tol w]
    zero_wipe_reachable_disabled[of tol v] wipe_disabled_steps[of v tol]
    get_wipe_steps_empty[of tol u]
  show ?thesis by blast
qed

text \<open>
  The witness: the wiper built from the settings with a retraction length of 0, whose
  wipe distance is \<open>0 * (3600 / 1800) = 0\<close> and whose ratio is \<open>0 / 0\<close>; after the move
  from (0, 0) to (1, 0) its history is empty again and its anchor is (1, 0), and a
  second move, to (2, 0), is pruned as well.
\<close>

theorem zero_wipe_distance_no_steps_witness:
  "gcode_wiper_new_args demo_tol blank_wiper no_retraction_args = no_retraction_wiper
   \<and> wipe_distance no_retraction_wiper = Finite 0
   \<and> half_wipe_distance no_retraction_wiper = Finite 0
   \<and> distance_to_retraction_ratio no_retraction_wiper = divide_double (Finite 0) (Finite 0)
   \<and> distance_to_retraction_ratio no_retraction_wiper = NaN
   \<and> is_initialized no_retraction_wiper
   \<and> update demo_tol (extruding_move 1 0) (extruding_move 0 0) no_retraction_wiper
       = Inr (no_retraction_wiper\<lparr>p_starting_position := Some (wiper_at 1 0)\<rparr>)
   \<and> zero_wipe_reachable demo_tol (no_retraction_wiper\<lparr>p_starting_position := Some (wiper_at 1 0)\<rparr>)
   \<and> wipe_disabled (no_retraction_wiper\<lparr>p_starting_position := Some (wiper_at 1 0)\<rparr>)
   \<and> get_wipe_steps demo_tol (no_retraction_wiper\<lparr>p_starting_position := Some (wiper_at 1 0)\<rparr>)
       = Inr []
   \<and> 0 < get_cartesian_distance (pos_x (extruding_move 1 0)) (pos_y (extruding_move 1 0))
           (pos_x (extruding_move 2 0)) (pos_y (extruding_move 2 0))
   \<and> update demo_tol (extruding_move 2 0) (extruding_move 1 0)
        (no_retraction_wiper\<lparr>p_starting_position := Some (wiper_at 1 0)\<rparr>)
       = Inr (no_retraction_wiper\<lparr>p_starting_position := Some (wiper_at 2 0),
                p_previous_starting_position := Some (wiper_at 1 0)\<rparr>)"
proof -
  have c: "gcode_wiper_new_args demo_tol blank_wiper no_retraction_args = no_retraction_wiper"
    by (simp add: initialize_defs demo_defs comparison_defs)
  have cr: "gcode_wiper_new_args_rounded (\<lambda>x. x) demo_tol blank_wiper no_retraction_args
      = no_retraction_wiper"
    using c by (simp add: gcode_wiper_new_args_def)
  have i: "initialize_rounded (\<lambda>x. x) demo_tol
        ((gcode_wiper_new blank_wiper)\<lparr>settings := no_retraction_args\<rparr>)
      = no_retraction_wiper"
    using cr by (simp add: gcode_wiper_new_args_rounded_def)
  have z: "wipe_distance no_retraction_wiper = Finite 0"
    by (simp add: demo_defs)
  have r0: "zero_wipe_reachable demo_tol no_retraction_wiper"
    using zero_wipe_reachable.zero_constructed[where fl = "\<lambda>x. x" and tol = demo_tol
        and m = blank_wiper and args = no_retraction_args] z
    by (simp add: cr)
  have m1: "0 < get_cartesian_distance (pos_x (extruding_move 0 0)) (pos_y (extruding_move 0 0))
           (pos_x (extruding_move 1 0)) (pos_y (extruding_move 1 0))"
    and m2: "0 < get_cartesian_distance (pos_x (extruding_move 1 0)) (pos_y (extruding_move 1 0))
           (pos_x (extruding_move 2 0)) (pos_y (extruding_move 2 0))"
    by (simp_all add: demo_defs get_cartesian_distance_same_y)
  have u1: "update demo_tol (extruding_move 1 0) (extruding_move 0 0) no_retraction_wiper
       = Inr (no_retraction_wiper\<lparr>p_starting_position := Some (wiper_at 1 0)\<rparr>)"
    by (simp add: update_defs prune_loop.simps demo_defs comparison_defs history_defs
        get_cartesian_distance_same_y)
  have r1: "zero_wipe_reachable demo_tol
      (no_retraction_wiper\<lparr>p_starting_position := Some (wiper_at 1 0)\<rparr>)"
    using zero_wipe_reachable.zero_updated[OF r0 u1] m1 by blast
  have u2: "update demo_tol (extruding_move 2 0) (extruding_move 1 0)
        (no_retraction_wiper\<lparr>p_starting_position := Some (wiper_at 1 0)\<rparr>)
       = Inr (no_retraction_wiper\<lparr>p_starting_position := Some (wiper_at 2 0),
                p_previous_starting_position := Some (wiper_at 1 0)\<rparr>)"
    by (simp add: update_defs prune_loop.simps demo_defs comparison_defs history_defs
        get_cartesian_distance_same_y)
  have r: "distance_to_retraction_ratio no_retraction_wiper = divide_double (Finite 0) (Finite 0)
      \<and> distance_to_retraction_ratio no_retraction_wiper = NaN"
    by (simp add: demo_defs)
  from zero_wipe_distance_no_steps[where fl = "\<lambda>x. x" and tol = demo_tol
      and w = "(gcode_wiper_new blank_wiper)\<lparr>settings := no_retraction_args\<rparr>"
      and v = "no_retraction_wiper\<lparr>p_starting_position := Some (wiper_at 1 0)\<rparr>"
      and c = "extruding_move 2 0" and p = "extruding_move 1 0" and u = no_retraction_wiper]
    c i z r1 m2 u1 u2 r
  show ?thesis by simp
qed

text \<open>
  The claim as it is written fails in its second part, and in its first part at the
  edge. With a retraction length of 0 the wipe distance is \<open>0 * (3600 / 1800) = 0\<close>, and
  the constructor's call of \<open>initialize\<close> divides 0 by it: the ratio is NaN. And when
  this wiper is given a move of length 0 as an extruding move in X or Y, from (0, 0) to
  (0, 0), and then a move to (1, 0) that starts at (0.5, 0), the pruning keeps the
  entry (1, 0) and a total distance of 0.5: the total distance is not 0, there is a
  starting position and the history holds an entry, so \<open>get_wipe_steps\<close> passes its
  first test and does not return an empty sequence (the code computes the steps with
  the ratio NaN; the model, whose steps hold finite numbers, stops there).
\<close>

theorem zero_wipe_distance_no_steps_counterexample:
  "gcode_wiper_new_args demo_tol blank_wiper no_retraction_args = no_retraction_wiper
   \<and> is_initialized no_retraction_wiper
   \<and> wipe_distance no_retraction_wiper = Finite 0
   \<and> distance_to_retraction_ratio no_retraction_wiper = divide_double (Finite 0) (Finite 0)
   \<and> divide_double (Finite 0) (Finite 0) = NaN
   \<and> update demo_tol (extruding_move 0 0) (extruding_move 0 0) no_retraction_wiper
       = Inr (no_retraction_wiper
                \<lparr>p_starting_position := Some (wiper_at 0 0),
                 history := \<lparr>items = [wiper_at 0 0], undo_items = []\<rparr>\<rparr>)
   \<and> update demo_tol (extruding_move 1 0) (extruding_move (1 / 2) 0)
        (no_retraction_wiper
           \<lparr>p_starting_position := Some (wiper_at 0 0),
            history := \<lparr>items = [wiper_at 0 0], undo_items = []\<rparr>\<rparr>)
       = Inr (no_retraction_wiper
                \<lparr>total_distance := 1 / 2,
                 p_starting_position := Some (wiper_at 0 0),
                 p_previous_starting_position := Some (wiper_at 0 0),
                 history := \<lparr>items = [wiper_at 1 0], undo_items = [wiper_at 0 0]\<rparr>\<rparr>)
   \<and> total_distance
        (no_retraction_wiper
           \<lparr>total_distance := 1 / 2,
            p_starting_position := Some (wiper_at 0 0),
            p_previous_starting_position := Some (wiper_at 0 0),
            history := \<lparr>items = [wiper_at 1 0], undo_items = [wiper_at 0 0]\<rparr>\<rparr>) = 1 / 2
   \<and> p_starting_position
        (no_retraction_wiper
           \<lparr>total_distance := 1 / 2,
            p_starting_position := Some (wiper_at 0 0),
            p_previous_starting_position := Some (wiper_at 0 0),
            history := \<lparr>items = [wiper_at 1 0], undo_items = [wiper_at 0 0]\<rparr>\<rparr>) = Some (wiper_at 0 0)
   \<and> history_size (history
        (no_retraction_wiper
           \<lparr>total_distance := 1 / 2,
            p_starting_position := Some (wiper_at 0 0),
            p_previous_starting_position := Some (wiper_at 0 0),
            history := \<lparr>items = [wiper_at 1 0], undo_items = [wiper_at 0 0]\<rparr>\<rparr>)) = 1
   \<and> get_wipe_steps demo_tol
        (no_retraction_wiper
           \<lparr>total_distance := 1 / 2,
            p_starting_position := Some (wiper_at 0 0),
            p_previous_starting_position := Some (wiper_at 0 0),
            history := \<lparr>items = [wiper_at 1 0], undo_items = [wiper_at 0 0]\<rparr>\<rparr>)
       \<noteq> Inr []"
proof -
  have "gcode_wiper_new_args demo_tol blank_wiper no_retraction_args = no_retraction_wiper"
    by (simp add: initialize_defs demo_defs comparison_defs)
  moreover have "update demo_tol (extruding_move 0 0) (extruding_move 0 0) no_retraction_wiper
       = Inr (no_retraction_wiper
                \<lparr>p_starting_position := Some (wiper_at 0 0),
                 history := \<lparr>items = [wiper_at 0 0], undo_items = []\<rparr>\<rparr>)"
    by (simp add: update_defs prune_loop.simps demo_defs comparison_defs history_defs
        get_cartesian_distance_same_y)
  moreover have "update demo_tol (extruding_move 1 0) (extruding_move (1 / 2) 0)
        (no_retraction_wiper
           \<lparr>p_starting_position := Some (wiper_at 0 0),
            history := \<lparr>items = [wiper_at 0 0], undo_items = []\<rparr>\<rparr>)
       = Inr (no_retraction_wiper
                \<lparr>total_distance := 1 / 2,
                 p_starting_position := Some (wiper_at 0 0),
                 p_previous_starting_position := Some (wiper_at 0 0),
                 history := \<lparr>items = [wiper_at 1 0], undo_items = [wiper_at 0 0]\<rparr>\<rparr>)"
    by (simp add: update_defs prune_loop.simps demo_defs comparison_defs history_defs
        get_cartesian_distance_same_y)
  moreover have "get_wipe_steps demo_tol
        (no_retraction_wiper
           \<lparr>total_distance := 1 / 2,
            p_starting_position := Some (wiper_at 0 0),
            p_previous_starting_position := Some (wiper_at 0 0),
            history := \<lparr>items = [wiper_at 1 0], undo_items = [wiper_at 0 0]\<rparr>\<rparr>)
       = Inl NonFinite"
    by (simp add: get_wipe_steps_def get_missing_retraction_def
        wipe_distance_to_retraction_double_def Let_def demo_defs history_defs)
  ultimately show ?thesis by (simp add: demo_defs history_defs)
qed


end
